theory Spec2Isabelle
  imports Main "HOL-Library.Word"
begin

unbundle bit_operations_syntax

section \<open>JavaScript primitives used by the certificate code\<close>

text \<open>
  Text (the latin1 view of a PDF, hex text, attribute values, the fields of the result)
  is a \<open>string\<close>: one \<open>char\<close> per code unit, restricted to the 256 code units a
  latin1 view can hold. Binary strings, Buffers and number arrays are \<open>nat list\<close>s.
  A JavaScript \<open>Error\<close> is its message.
\<close>

type_synonym bytes = "nat list"
type_synonym error = string

text \<open>\<open>static NA = 'NA'\<close> of \<open>CertificateParser\<close>.\<close>

definition NA :: string where
  "NA = ''NA''"

text \<open>The white space \<open>parseInt\<close> skips (StrWhiteSpaceChar), among the first 256 code units.\<close>

definition isStrWhiteSpace :: "char \<Rightarrow> bool" where
  "isStrWhiteSpace c =
     (c \<in> set [CHR 0x09, CHR 0x0A, CHR 0x0B, CHR 0x0C, CHR 0x0D, CHR 0x20, CHR 0xA0])"

text \<open>The value of a character as a digit of a radix up to 36: 0-9, a-z, A-Z.\<close>

definition digitVal :: "char \<Rightarrow> nat option" where
  "digitVal c = (let n = (of_char c :: nat) in
     if 48 \<le> n \<and> n \<le> 57 then Some (n - 48)
     else if 97 \<le> n \<and> n \<le> 122 then Some (n - 87)
     else if 65 \<le> n \<and> n \<le> 90 then Some (n - 55)
     else None)"

text \<open>The longest prefix of radix-\<open>R\<close> digits, as digit values.\<close>

fun digitsPrefix :: "nat \<Rightarrow> string \<Rightarrow> nat list" where
  "digitsPrefix R [] = []"
| "digitsPrefix R (c # cs) =
     (case digitVal c of
        None \<Rightarrow> []
      | Some d \<Rightarrow> if d < R then d # digitsPrefix R cs else [])"

definition mathInt :: "nat \<Rightarrow> nat list \<Rightarrow> nat" where
  "mathInt R ds = foldl (\<lambda>a d. a * R + d) 0 ds"

text \<open>
  \<open>parseInt(string, radix)\<close> as ECMAScript defines it; radix \<open>0\<close> stands for an absent
  radix, \<open>None\<close> for \<open>NaN\<close>. Leading white space is skipped, a sign is read, a \<open>0x\<close>
  prefix selects radix 16 when the radix is absent or 16, and the longest prefix of
  digits is the value: what follows the digits is ignored. The result is kept as an
  exact integer (the source compares it with \<open>0\<close> and \<open>1900\<close> only, and
  \<open>hexToBytes\<close> parses two characters).
\<close>

definition parseInt :: "string \<Rightarrow> nat \<Rightarrow> int option" where
  "parseInt inputString radix =
     (let S = dropWhile isStrWhiteSpace inputString;
          sign = (if take 1 S = ''-'' then - 1 else 1 :: int);
          S1 = (if take 1 S = ''+'' \<or> take 1 S = ''-'' then drop 1 S else S)
      in if radix \<noteq> 0 \<and> (radix < 2 \<or> 36 < radix) then None
         else
           let stripPrefix = (radix = 0 \<or> radix = 16);
               hasPrefix = (stripPrefix \<and> (take 2 S1 = ''0x'' \<or> take 2 S1 = ''0X''));
               R = (if hasPrefix then 16 else if radix = 0 then 10 else radix);
               Z = digitsPrefix R (if hasPrefix then drop 2 S1 else S1)
           in if Z = [] then None else Some (sign * int (mathInt R Z)))"

text \<open>\<open>String.fromCharCode(n)\<close> for one argument: the code unit \<open>ToUint16(n)\<close>, 0 for \<open>NaN\<close>.\<close>

definition fromCharCode :: "int option \<Rightarrow> nat" where
  "fromCharCode v = (case v of None \<Rightarrow> 0 | Some n \<Rightarrow> nat (n mod 65536))"

text \<open>\<open>toUpperCase\<close> on one character, for the ASCII letters (the source applies it to
  one of \<open>MmFfTt\<close> only).\<close>

definition toUpperCase :: "char \<Rightarrow> char" where
  "toUpperCase c = (let n = (of_char c :: nat) in
     if 97 \<le> n \<and> n \<le> 122 then char_of (n - 32) else c)"

section \<open>IdentityDecoder: \<open>getPinCode\<close>, \<open>getBirthYear\<close>, \<open>getGenderInfo\<close>\<close>

text \<open>
  The argument is a JavaScript value that is a string or \<open>undefined\<close>
  (\<open>subjectAttrs['postalCode']\<close> of a certificate without the attribute): a
  \<open>string option\<close>. \<open>parseInt\<close> never throws, so the \<open>try\<close> of the source has no
  second branch.
\<close>

definition getPinCode :: "string option \<Rightarrow> string" where
  "getPinCode postalCode =
     (case postalCode of
        None \<Rightarrow> NA
      | Some s \<Rightarrow>
          if s \<noteq> [] \<and> (case parseInt s 0 of None \<Rightarrow> False | Some n \<Rightarrow> 0 < n)
          then s else NA)"

definition getBirthYear :: "string option \<Rightarrow> string" where
  "getBirthYear dnQualifier =
     (case dnQualifier of
        None \<Rightarrow> NA
      | Some s \<Rightarrow>
          if s \<noteq> [] \<and> 4 \<le> length s
          then (let sub = take 4 s in
                case parseInt sub 0 of
                  None \<Rightarrow> NA
                | Some year \<Rightarrow> if 1900 < year then sub else NA)
          else NA)"

definition getGenderInfo :: "string option \<Rightarrow> string" where
  "getGenderInfo dnQualifier =
     (case dnQualifier of
        None \<Rightarrow> NA
      | Some s \<Rightarrow>
          if s \<noteq> [] \<and> 5 \<le> length s
          then (let gender = s ! 4 in
                if gender \<in> set ''MmFfTt'' then [toUpperCase gender] else NA)
          else NA)"

section \<open>ByteScanner: \<open>hexToBytes\<close>\<close>

text \<open>
  \<open>for (i = 0; i < hex.length; i += 2) bytes += String.fromCharCode(parseInt(hex.substr(i, 2), 16))\<close>:
  the last chunk of an odd-length text has one character. The result is a binary
  string, one code unit for each chunk.
\<close>

fun hexToBytes :: "string \<Rightarrow> bytes" where
  "hexToBytes [] = []"
| "hexToBytes [a] = [fromCharCode (parseInt [a] 16)]"
| "hexToBytes (a # b # rest) = fromCharCode (parseInt [a, b] 16) # hexToBytes rest"

text \<open>The character class \<open>[0-9A-Fa-f]\<close> and the value of a hex digit.\<close>

definition isHexChar :: "char \<Rightarrow> bool" where
  "isHexChar c = (let n = (of_char c :: nat) in
     (48 \<le> n \<and> n \<le> 57) \<or> (65 \<le> n \<and> n \<le> 70) \<or> (97 \<le> n \<and> n \<le> 102))"

definition hexValue :: "char \<Rightarrow> nat" where
  "hexValue c = (case digitVal c of None \<Rightarrow> 0 | Some d \<Rightarrow> d)"

definition isDecDigit :: "char \<Rightarrow> bool" where
  "isDecDigit c = (48 \<le> (of_char c :: nat) \<and> (of_char c :: nat) \<le> 57)"

section \<open>SignatureLocator: the regular expressions\<close>

text \<open>
  Each pattern is a function on the text that remains at a position: it returns what the
  pattern captures there and the text after the match. None of the patterns needs
  backtracking before its bounded gap: a greedy \<open>\s*\<close>, \<open>\s+\<close>, \<open>\d+\<close>,
  \<open>[0-9A-Fa-f]+\<close> or \<open>[^\]]+\<close> is followed by a character outside its class, so the
  longest run is the only one that can match. \<open>\s\<close> is \<open>isStrWhiteSpace\<close>.
\<close>

definition lit :: "string \<Rightarrow> string \<Rightarrow> string option" where
  "lit p s = (if take (length p) s = p then Some (drop (length p) s) else None)"

definition spaces1 :: "string \<Rightarrow> string option" where
  "spaces1 s = (if takeWhile isStrWhiteSpace s = [] then None
                else Some (dropWhile isStrWhiteSpace s))"

definition digits1 :: "string \<Rightarrow> (string \<times> string) option" where
  "digits1 s = (if takeWhile isDecDigit s = [] then None
                else Some (takeWhile isDecDigit s, dropWhile isDecDigit s))"

text \<open>\<open>/\/Contents\s*<([0-9A-Fa-f]+)>/\<close>, the \<open>sigRegex\<close> of \<open>extractCertificateFromPDF\<close>.\<close>

definition contentsHex :: "string \<Rightarrow> (string \<times> string) option" where
  "contentsHex s =
     (case lit ''/Contents'' s of
        None \<Rightarrow> None
      | Some r \<Rightarrow>
          (case lit ''<'' (dropWhile isStrWhiteSpace r) of
             None \<Rightarrow> None
           | Some r2 \<Rightarrow>
               if takeWhile isHexChar r2 = [] then None
               else (case lit ''>'' (dropWhile isHexChar r2) of
                       None \<Rightarrow> None
                     | Some r3 \<Rightarrow> Some (takeWhile isHexChar r2, r3))))"

text \<open>\<open>/\/Contents\s+(\d+)\s+(\d+)\s+R/\<close>, extracted as \<open>`${match[1]} ${match[2]} R`\<close>.\<close>

definition contentsIndirect :: "string \<Rightarrow> (string \<times> string) option" where
  "contentsIndirect s =
     (case lit ''/Contents'' s of
        None \<Rightarrow> None
      | Some r \<Rightarrow>
          (case spaces1 r of
             None \<Rightarrow> None
           | Some r1 \<Rightarrow>
               (case digits1 r1 of
                  None \<Rightarrow> None
                | Some (n1, r2) \<Rightarrow>
                    (case spaces1 r2 of
                       None \<Rightarrow> None
                     | Some r3 \<Rightarrow>
                         (case digits1 r3 of
                            None \<Rightarrow> None
                          | Some (n2, r4) \<Rightarrow>
                              (case spaces1 r4 of
                                 None \<Rightarrow> None
                               | Some r5 \<Rightarrow>
                                   (case lit ''R'' r5 of
                                      None \<Rightarrow> None
                                    | Some r6 \<Rightarrow> Some (n1 @ '' '' @ n2 @ '' R'', r6))))))))"

fun firstSome :: "'a option list \<Rightarrow> 'a option" where
  "firstSome [] = None"
| "firstSome (x # xs) = (case x of None \<Rightarrow> firstSome xs | Some r \<Rightarrow> Some r)"

text \<open>
  The greedy gap \<open>[\s\S]{0,n}\<close> before the rest of a pattern: the longest gap is tried
  first, then the shorter ones down to the empty gap.
\<close>

definition gapThen :: "nat \<Rightarrow> (string \<Rightarrow> 'a option) \<Rightarrow> string \<Rightarrow> 'a option" where
  "gapThen n m s = firstSome (map (\<lambda>k. m (drop k s)) (rev [0 ..< Suc (min n (length s))]))"

text \<open>\<open>/\/ByteRange\s*\[([^\]]+)\][\s\S]{0,500}\/Contents\s*<([0-9A-Fa-f]+)>/\<close>,
  extracted as \<open>match[2]\<close>.\<close>

definition byteRangeContents :: "string \<Rightarrow> (string \<times> string) option" where
  "byteRangeContents s =
     (case lit ''/ByteRange'' s of
        None \<Rightarrow> None
      | Some r \<Rightarrow>
          (case lit ''['' (dropWhile isStrWhiteSpace r) of
             None \<Rightarrow> None
           | Some r2 \<Rightarrow>
               if takeWhile (\<lambda>c. c \<noteq> CHR '']'') r2 = [] then None
               else (case lit '']'' (dropWhile (\<lambda>c. c \<noteq> CHR '']'') r2) of
                       None \<Rightarrow> None
                     | Some r3 \<Rightarrow> gapThen 500 contentsHex r3)))"

text \<open>\<open>/KEY\s*NAME[\s\S]{0,1000}\/Contents\s*<([0-9A-Fa-f]+)>/\<close>: the patterns for a
  \<open>/Type /Sig\<close> dictionary and for the three \<open>/SubFilter\<close> markers.\<close>

definition markedContents :: "string \<Rightarrow> string \<Rightarrow> string \<Rightarrow> (string \<times> string) option" where
  "markedContents key name s =
     (case lit key s of
        None \<Rightarrow> None
      | Some r \<Rightarrow>
          (case lit name (dropWhile isStrWhiteSpace r) of
             None \<Rightarrow> None
           | Some r2 \<Rightarrow> gapThen 1000 contentsHex r2))"

text \<open>
  \<open>[...text.matchAll(regex)]\<close> for a global regular expression: the matches from left
  to right, each with its index; the search goes on where the last match ended (one
  character further after an empty match).
\<close>

function matchAll :: "(string \<Rightarrow> ('c \<times> string) option) \<Rightarrow> nat \<Rightarrow> string \<Rightarrow> (nat \<times> 'c) list" where
  "matchAll m i s =
     (if s = [] then (case m [] of None \<Rightarrow> [] | Some (c, rest) \<Rightarrow> [(i, c)])
      else (case m s of
              None \<Rightarrow> matchAll m (i + 1) (tl s)
            | Some (c, rest) \<Rightarrow>
                (i, c) # (if length rest < length s
                          then matchAll m (i + (length s - length rest)) rest
                          else matchAll m (i + 1) (tl s))))"
  by pat_completeness auto
termination
  by (relation "measure (\<lambda>(m, i, s). length s)") auto

declare matchAll.simps [simp del]

text \<open>The candidates of \<open>extractCertificateFromPDF\<close>: \<open>matches[k][1]\<close>, in the order of
  \<open>matches\<close>.\<close>

definition sigMatches :: "string \<Rightarrow> (nat \<times> string) list" where
  "sigMatches pdfString = matchAll contentsHex 0 pdfString"

text \<open>The \<open>patterns\<close> table of \<open>analyzePdf.js\<close>, each regular expression with its
  \<open>extract\<close>, and the list \<open>foundSignatures\<close> the script builds from it (without the
  \<open>size\<close> it prints, which is computed from the data).\<close>

definition patterns :: "(string \<times> (string \<Rightarrow> (string \<times> string) option)) list" where
  "patterns =
     [(''Standard /Contents hex'', contentsHex),
      (''Indirect /Contents reference'', contentsIndirect),
      (''/ByteRange with /Contents'', byteRangeContents),
      (''/Sig dictionary'', markedContents ''/Type'' ''/Sig''),
      (''PKCS#7 detached'', markedContents ''/SubFilter'' ''/adbe.pkcs7.detached''),
      (''PKCS#7 SHA1'', markedContents ''/SubFilter'' ''/adbe.pkcs7.sha1''),
      (''Aadhaar eSign'', markedContents ''/SubFilter'' ''/ETSI.CAdES.detached'')]"

record foundSignature =
  pattern :: string
  sigData :: string
  position :: nat

definition patternMatches :: "string \<times> (string \<Rightarrow> (string \<times> string) option) \<Rightarrow> string \<Rightarrow> foundSignature list" where
  "patternMatches p pdfString =
     map (\<lambda>(i, d). \<lparr>pattern = fst p, sigData = d, position = i\<rparr>) (matchAll (snd p) 0 pdfString)"

definition foundSignatures :: "string \<Rightarrow> foundSignature list" where
  "foundSignatures pdfString = concat (map (\<lambda>p. patternMatches p pdfString) patterns)"


text \<open>The place of a pattern in the table.\<close>

definition patternRank :: "string \<Rightarrow> nat" where
  "patternRank name = length (takeWhile (\<lambda>p. fst p \<noteq> name) patterns)"

section \<open>The ASN.1 objects of node-forge and the library interface\<close>

text \<open>
  An object returned by \<open>forge.asn1.fromDer\<close> has a \<open>tagClass\<close>, a \<open>type\<close>, a
  \<open>constructed\<close> flag and a \<open>value\<close> that is a binary string (primitive) or an array of
  objects (constructed). The tag classes are \<open>0x00\<close> (universal), \<open>0x40\<close>, \<open>0x80\<close>
  (context-specific) and \<open>0xC0\<close>; the types the code names are \<open>INTEGER = 2\<close>,
  \<open>SEQUENCE = 16\<close> and \<open>SET = 17\<close>.
\<close>

datatype asn1 = Asn1 (tagClass: nat) (asn1Type: nat) (constructed: bool) (asn1Value: asn1Val)
  and asn1Val = Bytes bytes | Nodes "asn1 list"

definition INTEGER :: nat where "INTEGER = 2"
definition SEQUENCE :: nat where "SEQUENCE = 16"
definition SET :: nat where "SET = 17"

text \<open>\<open>v.length\<close> and \<open>v[k]\<close> of a value: an element of an array is an object, an
  element of a string is a one-character string (which has no \<open>type\<close> and no \<open>value\<close>),
  and an index out of range gives \<open>undefined\<close>.\<close>

datatype element = Node asn1 | Chr nat | Undefined

definition valLength :: "asn1Val \<Rightarrow> nat" where
  "valLength v = (case v of Bytes s \<Rightarrow> length s | Nodes xs \<Rightarrow> length xs)"

definition valAt :: "asn1Val \<Rightarrow> nat \<Rightarrow> element" where
  "valAt v k = (case v of
      Bytes s \<Rightarrow> if k < length s then Chr (s ! k) else Undefined
    | Nodes xs \<Rightarrow> if k < length xs then Node (xs ! k) else Undefined)"

text \<open>\<open>e.value\<close> of an element that is not \<open>undefined\<close>: \<open>None\<close> is \<open>undefined\<close>.\<close>

definition elementValue :: "element \<Rightarrow> asn1Val option" where
  "elementValue e = (case e of Node n \<Rightarrow> Some (asn1Value n) | _ \<Rightarrow> None)"

text \<open>The time of a \<open>Date\<close>, \<open>getTime()\<close>: a number of milliseconds, or \<open>NaN\<close> for an
  invalid date.\<close>

datatype jsnumber = Number int | NaN

text \<open>An attribute of a certificate object's subject or issuer, and the certificate
  object of \<open>forge.pki\<close> as far as the code reads it.\<close>

record attribute =
  shortName :: "string option"
  attrType :: "string option"
  attrName :: "string option"
  attrValue :: string

record certificate =
  certSerialNumber :: string
  notAfter :: jsnumber
  subject :: "attribute list"
  issuer :: "attribute list"

text \<open>
  The functions of the library the code calls. The library is not part of the
  repository: every property below holds for any library. A function that throws
  returns \<open>Inl\<close> of the message of its error.
\<close>

record forge =
  fromDer :: "bytes \<Rightarrow> error + asn1"
  toDer :: "asn1 \<Rightarrow> error + bytes"
  bytesToHex :: "asn1Val \<Rightarrow> error + string"
  utcTimeToDate :: "asn1Val option \<Rightarrow> error + jsnumber"
  generalizedTimeToDate :: "asn1Val option \<Rightarrow> error + jsnumber"
  derToOid :: "asn1Val option \<Rightarrow> error + string"
  decodeUtf8 :: "asn1 list \<Rightarrow> error + string"
  certificateFromAsn1 :: "asn1 \<Rightarrow> error + certificate"
  certificateFromPem :: "bytes \<Rightarrow> error + certificate"
  certificateToAsn1 :: "certificate \<Rightarrow> error + asn1"
  messageFromAsn1 :: "asn1 \<Rightarrow> error + certificate list option"

text \<open>The message of the \<open>TypeError\<close> the engine raises on a property of \<open>undefined\<close>;
  its wording is the engine's.\<close>

definition typeError :: error where
  "typeError = ''TypeError''"

text \<open>\<open>catch (error) { throw new Error(prefix + error.message) }\<close>.\<close>

definition rethrow :: "string \<Rightarrow> error + 'a \<Rightarrow> error + 'a" where
  "rethrow prefix r = (case r of Inl e \<Rightarrow> Inl (prefix @ e) | Inr v \<Rightarrow> Inr v)"

text \<open>\<open>text.includes(part)\<close>.\<close>

fun includesPart :: "'a list \<Rightarrow> 'a list \<Rightarrow> bool" where
  "includesPart [] part = (part = [])"
| "includesPart (x # xs) part = (take (length part) (x # xs) = part \<or> includesPart xs part)"

section \<open>CertificateAttributeExtractor: \<open>certificateParser.js\<close>\<close>

text \<open>The result object.\<close>

record aadhaarDetails =
  serialNumber :: string
  endDate :: jsnumber
  signerName :: string
  tpin :: string
  state :: string
  gender :: string
  yob :: string
  pincode :: string
  issuerName :: string
  issuerOrganisation :: string

text \<open>A JavaScript object used as a dictionary with text keys; \<open>a || b\<close> on its entries
  (an absent entry and the empty text are falsy).\<close>

type_synonym attributes = "string \<rightharpoonup> string"

definition truthy :: "string option \<Rightarrow> bool" where
  "truthy v = (case v of None \<Rightarrow> False | Some s \<Rightarrow> s \<noteq> [])"

definition orElse :: "string option \<Rightarrow> string option \<Rightarrow> string option" where
  "orElse a b = (if truthy a then a else b)"

definition orNA :: "string option \<Rightarrow> string" where
  "orNA a = (case a of None \<Rightarrow> NA | Some s \<Rightarrow> if s \<noteq> [] then s else NA)"

text \<open>\<open>getAttributes\<close>: each attribute is stored under its short name, its type (the
  OID) and its name, when it has them.\<close>

definition storeUnder :: "string option \<Rightarrow> string \<Rightarrow> attributes \<Rightarrow> attributes" where
  "storeUnder k v m = (if truthy k then m(the k \<mapsto> v) else m)"

definition getAttributes :: "attribute list \<Rightarrow> attributes" where
  "getAttributes attrs =
     foldl (\<lambda>m attr. storeUnder (attrName attr) (attrValue attr)
                      (storeUnder (attrType attr) (attrValue attr)
                        (storeUnder (shortName attr) (attrValue attr) m)))
           Map.empty attrs"

definition extractAadhaarSignDetails :: "certificate \<Rightarrow> aadhaarDetails" where
  "extractAadhaarSignDetails cert =
     (let subjectAttrs = getAttributes (subject cert);
          dnQualifier = orElse (subjectAttrs ''dnQualifier'') (subjectAttrs ''2.5.4.46'');
          postalCode = orElse (subjectAttrs ''postalCode'') (subjectAttrs ''2.5.4.17'');
          issuerAttrs = getAttributes (issuer cert)
      in \<lparr>serialNumber = certSerialNumber cert,
          endDate = notAfter cert,
          signerName = orNA (subjectAttrs ''CN''),
          tpin = orNA (subjectAttrs ''T''),
          state = orNA (subjectAttrs ''ST''),
          gender = getGenderInfo dnQualifier,
          yob = getBirthYear dnQualifier,
          pincode = getPinCode postalCode,
          issuerName = orNA (issuerAttrs ''CN''),
          issuerOrganisation = orNA (issuerAttrs ''O'')\<rparr>)"

text \<open>The \<open>nameMap\<close> of \<open>extractAsn1Attributes\<close>.\<close>

definition nameMap :: "string \<rightharpoonup> string" where
  "nameMap = map_of
     [(''2.5.4.3'', ''CN''), (''2.5.4.6'', ''C''), (''2.5.4.7'', ''L''), (''2.5.4.8'', ''ST''),
      (''2.5.4.10'', ''O''), (''2.5.4.11'', ''OU''), (''2.5.4.12'', ''T''),
      (''2.5.4.17'', ''postalCode''), (''2.5.4.46'', ''dnQualifier'')]"

text \<open>A binary string read as text.\<close>

definition bytesText :: "bytes \<Rightarrow> string" where
  "bytesText s = map char_of s"

text \<open>
  The body of the loop of \<open>extractAsn1Attributes\<close> for one \<open>rdn\<close>: a SET whose first
  element is a SEQUENCE of at least two elements gives an entry under the OID of the
  first element and, for a known OID, under its short name. The value is the second
  element's text, decoded by the library when it is not a string, and empty when that
  element has no value.
\<close>

definition attributeValue :: "forge \<Rightarrow> element \<Rightarrow> error + string" where
  "attributeValue F valueAsn1 =
     (case elementValue valueAsn1 of
        None \<Rightarrow> Inr []
      | Some (Bytes s) \<Rightarrow> Inr (bytesText s)
      | Some (Nodes xs) \<Rightarrow> decodeUtf8 F xs)"

definition addRdn :: "forge \<Rightarrow> attributes \<Rightarrow> asn1 \<Rightarrow> error + attributes" where
  "addRdn F attrs rdn =
     (if asn1Type rdn = SET \<and> 0 < valLength (asn1Value rdn) then
        (case valAt (asn1Value rdn) 0 of
           Node attrSeq \<Rightarrow>
             if asn1Type attrSeq = SEQUENCE \<and> 2 \<le> valLength (asn1Value attrSeq) then
               (case derToOid F (elementValue (valAt (asn1Value attrSeq) 0)) of
                  Inl e \<Rightarrow> Inl e
                | Inr oid \<Rightarrow>
                    (case attributeValue F (valAt (asn1Value attrSeq) 1) of
                       Inl e \<Rightarrow> Inl e
                     | Inr v \<Rightarrow>
                         Inr (case nameMap oid of
                                None \<Rightarrow> attrs(oid \<mapsto> v)
                              | Some short \<Rightarrow> (attrs(oid \<mapsto> v))(short \<mapsto> v))))
             else Inr attrs
         | _ \<Rightarrow> Inr attrs)
      else Inr attrs)"

fun addRdns :: "forge \<Rightarrow> attributes \<Rightarrow> asn1 list \<Rightarrow> error + attributes" where
  "addRdns F attrs [] = Inr attrs"
| "addRdns F attrs (rdn # rdns) =
     (case addRdn F attrs rdn of Inl e \<Rightarrow> Inl e | Inr attrs' \<Rightarrow> addRdns F attrs' rdns)"

text \<open>\<open>extractAsn1Attributes\<close>: no name, or a name with a falsy value, gives no
  attributes; the characters of a string value are not SETs.\<close>

definition extractAsn1Attributes :: "forge \<Rightarrow> asn1 option \<Rightarrow> error + attributes" where
  "extractAsn1Attributes F nameAsn1 =
     (case nameAsn1 of
        None \<Rightarrow> Inr Map.empty
      | Some n \<Rightarrow>
          (case asn1Value n of
             Bytes s \<Rightarrow> Inr Map.empty
           | Nodes rdns \<Rightarrow> addRdns F Map.empty rdns))"

text \<open>The variables of the loop of \<open>extractFromAsn1\<close> over the fields of the
  TBSCertificate.\<close>

record tbsState =
  subjectAsn1 :: "asn1 option"
  issuerAsn1 :: "asn1 option"
  validity :: "jsnumber option"
  serial :: "string option"

definition tbsField :: "forge \<Rightarrow> tbsState \<Rightarrow> asn1 \<Rightarrow> error + tbsState" where
  "tbsField F st field =
     (case (if asn1Type field = INTEGER \<and> \<not> truthy (serial st)
            then (case bytesToHex F (asn1Value field) of
                    Inl e \<Rightarrow> Inl e
                  | Inr h \<Rightarrow> Inr (st\<lparr>serial := Some h\<rparr>))
            else Inr st) of
        Inl e \<Rightarrow> Inl e
      | Inr st1 \<Rightarrow>
          let st2 =
                (if asn1Type field = SEQUENCE \<and> valLength (asn1Value field) = 2 \<and> validity st1 = None
                 then (case utcTimeToDate F (elementValue (valAt (asn1Value field) 1)) of
                         Inr t \<Rightarrow> st1\<lparr>validity := Some t\<rparr>
                       | Inl e \<Rightarrow>
                           (case generalizedTimeToDate F (elementValue (valAt (asn1Value field) 1)) of
                              Inr t \<Rightarrow> st1\<lparr>validity := Some t\<rparr>
                            | Inl e2 \<Rightarrow> st1))
                 else st1)
          in Inr (if asn1Type field = SEQUENCE \<and> 0 < valLength (asn1Value field) \<and>
                     (case valAt (asn1Value field) 0 of Node n \<Rightarrow> asn1Type n = SET | _ \<Rightarrow> False)
                  then (if issuerAsn1 st2 = None then st2\<lparr>issuerAsn1 := Some field\<rparr>
                        else if subjectAsn1 st2 = None then st2\<lparr>subjectAsn1 := Some field\<rparr>
                        else st2)
                  else st2))"

fun tbsFields :: "forge \<Rightarrow> tbsState \<Rightarrow> asn1 list \<Rightarrow> error + tbsState" where
  "tbsFields F st [] = Inr st"
| "tbsFields F st (field # rest) =
     (case tbsField F st field of Inl e \<Rightarrow> Inl e | Inr st' \<Rightarrow> tbsFields F st' rest)"

definition buildDetails :: "tbsState \<Rightarrow> attributes \<Rightarrow> attributes \<Rightarrow> aadhaarDetails" where
  "buildDetails st subjectAttrs issuerAttrs =
     (let dnQualifier = orElse (subjectAttrs ''2.5.4.46'') (subjectAttrs ''dnQualifier'');
          postalCode = orElse (subjectAttrs ''2.5.4.17'') (subjectAttrs ''postalCode'')
      in \<lparr>serialNumber = orNA (serial st),
          endDate = (case validity st of None \<Rightarrow> Number 0 | Some t \<Rightarrow> t),
          signerName = orNA (orElse (subjectAttrs ''2.5.4.3'') (subjectAttrs ''CN'')),
          tpin = orNA (orElse (subjectAttrs ''2.5.4.12'') (subjectAttrs ''T'')),
          state = orNA (orElse (subjectAttrs ''2.5.4.8'') (subjectAttrs ''ST'')),
          gender = (if truthy dnQualifier then getGenderInfo dnQualifier else NA),
          yob = (if truthy dnQualifier then getBirthYear dnQualifier else NA),
          pincode = (if truthy postalCode then getPinCode postalCode else NA),
          issuerName = orNA (orElse (issuerAttrs ''2.5.4.3'') (issuerAttrs ''CN'')),
          issuerOrganisation = orNA (orElse (issuerAttrs ''2.5.4.10'') (issuerAttrs ''O''))\<rparr>)"

text \<open>
  \<open>extractFromAsn1\<close>. \<open>asn1Cert.value[0]\<close> must be an object: the fields of anything else
  cannot be read and the \<open>TypeError\<close> is rethrown. The fields of a TBSCertificate whose
  value is a string are its characters, none of which has a \<open>type\<close>.
\<close>

definition extractFromAsn1 :: "forge \<Rightarrow> asn1 \<Rightarrow> error + aadhaarDetails" where
  "extractFromAsn1 F asn1Cert =
     rethrow ''Failed to extract from ASN.1: ''
       (case valAt (asn1Value asn1Cert) 0 of
          Node tbsCertificate \<Rightarrow>
            (case tbsFields F \<lparr>subjectAsn1 = None, issuerAsn1 = None, validity = None, serial = None\<rparr>
                    (case asn1Value tbsCertificate of Bytes s \<Rightarrow> [] | Nodes fs \<Rightarrow> fs) of
               Inl e \<Rightarrow> Inl e
             | Inr st \<Rightarrow>
                 (case extractAsn1Attributes F (subjectAsn1 st) of
                    Inl e \<Rightarrow> Inl e
                  | Inr subjectAttrs \<Rightarrow>
                      (case extractAsn1Attributes F (issuerAsn1 st) of
                         Inl e \<Rightarrow> Inl e
                       | Inr issuerAttrs \<Rightarrow> Inr (buildDetails st subjectAttrs issuerAttrs))))
        | _ \<Rightarrow> Inl typeError)"

text \<open>
  \<open>parseCertificateFromBuffer\<close>. The buffer is PEM when its text includesPart
  \<open>BEGIN CERTIFICATE\<close> (an ASCII text, so the test on the UTF-8 reading of the buffer is
  the test on its bytes). A certificate the library cannot read as a certificate object
  is read from its ASN.1 when the library's message names a key that is not RSA or a
  structure that is not an X509v3 certificate (in the PEM branch, after any error).
\<close>

definition beginCertificate :: bytes where
  "beginCertificate = map of_char ''BEGIN CERTIFICATE''"

definition parseCertificateFromBuffer :: "forge \<Rightarrow> bytes \<Rightarrow> error + aadhaarDetails" where
  "parseCertificateFromBuffer F certBuffer =
     rethrow ''Failed to parse certificate from buffer: ''
       (if includesPart certBuffer beginCertificate then
          (case certificateFromPem F certBuffer of
             Inr cert \<Rightarrow> Inr (extractAadhaarSignDetails cert)
           | Inl pemError \<Rightarrow>
               (case fromDer F certBuffer of
                  Inl e \<Rightarrow> Inl e
                | Inr a \<Rightarrow> extractFromAsn1 F a))
        else
          (case (case fromDer F certBuffer of Inl e \<Rightarrow> Inl e | Inr a \<Rightarrow> certificateFromAsn1 F a) of
             Inr cert \<Rightarrow> Inr (extractAadhaarSignDetails cert)
           | Inl asn1Error \<Rightarrow>
               if asn1Error \<noteq> [] \<and>
                  (includesPart asn1Error ''OID is not RSA'' \<or> includesPart asn1Error ''X509v3 Certificate'')
               then (case fromDer F certBuffer of
                       Inl e \<Rightarrow> Inl e
                     | Inr asn1Obj \<Rightarrow> extractFromAsn1 F asn1Obj)
               else Inl asn1Error))"

section \<open>Pkcs7Decoder: the byte-pattern fallback of \<open>pdfCertificateExtractor.js\<close>\<close>

text \<open>
  \<open>bytes[k]\<close> is \<open>undefined\<close> outside the array. The lengths are accumulated with
  \<open>(len << 8) | bytes[...]\<close>, which works on 32-bit integers and reads \<open>undefined\<close> as 0;
  the result is a signed 32-bit integer.
\<close>

definition byteAt :: "bytes \<Rightarrow> int \<Rightarrow> nat option" where
  "byteAt bs k = (if 0 \<le> k \<and> k < int (length bs) then Some (bs ! nat k) else None)"

definition toInt32 :: "nat option \<Rightarrow> 32 word" where
  "toInt32 v = (case v of None \<Rightarrow> 0 | Some n \<Rightarrow> word_of_nat n)"

text \<open>\<open>for (let j = 0; j < numLengthBytes; j++) len = (len << 8) | bytes[base + j]\<close>.\<close>

fun lengthBytes :: "bytes \<Rightarrow> int \<Rightarrow> nat \<Rightarrow> 32 word \<Rightarrow> 32 word" where
  "lengthBytes bs base n len =
     (if n = 0 then len
      else lengthBytes bs (base + 1) (n - 1) (push_bit 8 len OR toInt32 (byteAt bs base)))"

declare lengthBytes.simps [simp del]

text \<open>\<open>bytes.slice(start, end)\<close> for integers: a negative index counts from the end.\<close>

definition jsSlice :: "bytes \<Rightarrow> int \<Rightarrow> int \<Rightarrow> bytes" where
  "jsSlice bs start end =
     (let len = int (length bs);
          from = (if start < 0 then max (len + start) 0 else min start len);
          to = (if end < 0 then max (len + end) 0 else min end len)
      in take (nat (to - from)) (drop (nat from) bs))"

text \<open>\<open>asn1.value && Array.isArray(asn1.value) && asn1.value.length === n\<close> and its
  variants.\<close>

definition arrayLength :: "asn1 \<Rightarrow> nat option" where
  "arrayLength a = (case asn1Value a of Bytes s \<Rightarrow> None | Nodes xs \<Rightarrow> Some (length xs))"

record foundCert =
  buffer :: bytes
  certSize :: int
  certOffset :: int

text \<open>
  The body of the scan for one position: a SEQUENCE tag followed by \<open>0x82\<close> or \<open>0x83\<close>,
  the declared length, and the test. \<open>lo\<close> and \<open>hi\<close> are the bounds on the declared
  length; \<open>scanForCertificates\<close> uses \<open>certLen >= 500 && certLen <= 10000\<close>.
  \<open>String.fromCharCode.apply\<close> and \<open>Buffer.from(..., 'binary')\<close> keep the bytes (the
  engine's limit on the number of arguments is not modelled).
\<close>

definition longFormAt :: "bytes \<Rightarrow> int \<Rightarrow> bool" where
  "longFormAt bs i =
     (byteAt bs i = Some 0x30 \<and> (byteAt bs (i + 1) = Some 0x82 \<or> byteAt bs (i + 1) = Some 0x83))"

definition numLengthBytesAt :: "bytes \<Rightarrow> int \<Rightarrow> nat" where
  "numLengthBytesAt bs i = (case byteAt bs (i + 1) of None \<Rightarrow> 0 | Some b \<Rightarrow> b AND 0x7F)"

definition declaredLength :: "bytes \<Rightarrow> int \<Rightarrow> int" where
  "declaredLength bs i = sint (lengthBytes bs (i + 2) (numLengthBytesAt bs i) 0)"

definition certAt :: "forge \<Rightarrow> bytes \<Rightarrow> nat \<Rightarrow> foundCert list" where
  "certAt F bs i =
     (if longFormAt bs (int i) then
        (let certLen = declaredLength bs (int i);
             headerSize = 2 + int (numLengthBytesAt bs (int i))
         in if 500 \<le> certLen \<and> certLen \<le> 10000 \<and> int i + headerSize + certLen \<le> int (length bs)
            then (let certBytes = jsSlice bs (int i) (int i + headerSize + certLen) in
                  case fromDer F certBytes of
                    Inl e \<Rightarrow> []
                  | Inr a \<Rightarrow>
                      if arrayLength a = Some 3
                      then [\<lparr>buffer = certBytes, certSize = headerSize + certLen, certOffset = int i\<rparr>]
                      else [])
            else [])
      else [])"

text \<open>\<open>scanForCertificates\<close>: \<open>for (let i = 0; i < bytes.length - 100; i++)\<close>.\<close>

function scanFrom :: "forge \<Rightarrow> bytes \<Rightarrow> nat \<Rightarrow> foundCert list" where
  "scanFrom F bs i =
     (if int i < int (length bs) - 100 then certAt F bs i @ scanFrom F bs (i + 1) else [])"
  by pat_completeness auto
termination
  by (relation "measure (\<lambda>(F, bs, i). length bs - i)") auto

declare scanFrom.simps [simp del]

definition scanForCertificates :: "forge \<Rightarrow> bytes \<Rightarrow> foundCert list" where
  "scanForCertificates F bs = scanFrom F bs 0"

text \<open>The test for Aadhaar data, written out three times in the source.\<close>

definition hasAadhaarData :: "aadhaarDetails \<Rightarrow> bool" where
  "hasAadhaarData details =
     (tpin details \<noteq> NA \<or> gender details \<noteq> NA \<or> yob details \<noteq> NA \<or> pincode details \<noteq> NA)"

text \<open>The loop that tests the found certificates: the first whose details parse and
  have Aadhaar data is returned; a parse error moves on to the next.\<close>

fun firstAadhaar :: "forge \<Rightarrow> foundCert list \<Rightarrow> bytes option" where
  "firstAadhaar F [] = None"
| "firstAadhaar F (cert # certs) =
     (case parseCertificateFromBuffer F (buffer cert) of
        Inl parseError \<Rightarrow> firstAadhaar F certs
      | Inr details \<Rightarrow> if hasAadhaarData details then Some (buffer cert) else firstAadhaar F certs)"

text \<open>\<open>foundCerts.sort((a, b) => b.size - a.size); return foundCerts[0].buffer\<close>: the
  sort is stable, so the first certificate of the largest size.\<close>

fun largest :: "foundCert list \<Rightarrow> foundCert \<Rightarrow> foundCert" where
  "largest [] best = best"
| "largest (c # cs) best = largest cs (if certSize best < certSize c then c else best)"

subsection \<open>Strategy 1: the certificates section behind an \<open>0xA0\<close> tag\<close>

text \<open>The length of the \<open>0xA0\<close> tag at \<open>i\<close> (lines 259 to 281): where the content starts
  and the length of the section. \<open>0x80\<close> is the indefinite form: the section runs to the
  end of the bytes.\<close>

definition a0TagLength :: "bytes \<Rightarrow> int \<Rightarrow> int \<times> int" where
  "a0TagLength bs i =
     (let pos = i + 1 in
      case byteAt bs pos of
        None \<Rightarrow> (pos + 1, 0)
      | Some b \<Rightarrow>
          if b = 0x80 then (pos + 1, int (length bs) - (pos + 1))
          else if b AND 0x80 \<noteq> 0
          then (pos + 1 + int (b AND 0x7F), sint (lengthBytes bs (pos + 1) (b AND 0x7F) 0))
          else (pos + 1, int b))"

text \<open>The length of the SEQUENCE at \<open>scanPos\<close> (lines 300 to 312): the length, which is
  \<open>undefined\<close> when there is no byte after the tag, and the size of the header.\<close>

definition seqTagLength :: "bytes \<Rightarrow> int \<Rightarrow> int option \<times> int" where
  "seqTagLength bs scanPos =
     (case byteAt bs (scanPos + 1) of
        None \<Rightarrow> (None, 2)
      | Some b \<Rightarrow>
          if b AND 0x80 \<noteq> 0
          then (Some (sint (lengthBytes bs (scanPos + 2) (b AND 0x7F) 0)), 2 + int (b AND 0x7F))
          else (Some (int b), 2))"

text \<open>The raw scan inside a structure of more than three elements (lines 368 to 406):
  \<open>certLen > 100 && certLen < 10000\<close>.\<close>

definition rawCertAt :: "forge \<Rightarrow> bytes \<Rightarrow> int \<Rightarrow> int \<Rightarrow> foundCert list" where
  "rawCertAt F bs structStart rawPos =
     (if longFormAt bs rawPos then
        (let certLen = declaredLength bs rawPos;
             certLenBytes = 2 + int (numLengthBytesAt bs rawPos)
         in if 100 < certLen \<and> certLen < 10000 \<and> rawPos + certLenBytes + certLen \<le> int (length bs)
            then (let rawCertBytes = jsSlice bs rawPos (rawPos + certLenBytes + certLen) in
                  case fromDer F rawCertBytes of
                    Inl e \<Rightarrow> []
                  | Inr a \<Rightarrow>
                      if arrayLength a = Some 3
                      then [\<lparr>buffer = rawCertBytes, certSize = certLen + certLenBytes,
                             certOffset = rawPos - structStart\<rparr>]
                      else [])
            else [])
      else [])"

function rawScan :: "forge \<Rightarrow> bytes \<Rightarrow> int \<Rightarrow> int \<Rightarrow> int \<Rightarrow> foundCert list" where
  "rawScan F bs structStart structEnd rawPos =
     (if rawPos < structEnd - 100
      then rawCertAt F bs structStart rawPos @ rawScan F bs structStart structEnd (rawPos + 1)
      else [])"
  by pat_completeness auto
termination
  by (relation "measure (\<lambda>(F, bs, structStart, structEnd, rawPos). nat (structEnd - 100 - rawPos))") auto

declare rawScan.simps [simp del]

text \<open>The search for a nested certificate among the elements (lines 351 to 359): the
  first element that is a SEQUENCE of three elements, converted back to DER.\<close>

fun nestedCertificate :: "asn1 list \<Rightarrow> asn1 option" where
  "nestedCertificate [] = None"
| "nestedCertificate (elem # elems) =
     (if asn1Type elem = SEQUENCE \<and> arrayLength elem = Some 3 then Some elem
      else nestedCertificate elems)"

text \<open>What the \<open>try\<close> block at one SEQUENCE does: it returns a certificate from the
  function, or the scan goes on (also after an error, which the \<open>catch\<close> logs).\<close>

definition trySequence :: "forge \<Rightarrow> bytes \<Rightarrow> int \<Rightarrow> int \<Rightarrow> bytes \<Rightarrow> bytes option" where
  "trySequence F bs scanPos structEnd seqBinary =
     (case fromDer F seqBinary of
        Inl testError \<Rightarrow> None
      | Inr testAsn1 \<Rightarrow>
          (case asn1Value testAsn1 of
             Bytes s \<Rightarrow> None
           | Nodes elems \<Rightarrow>
               if length elems = 3 then Some seqBinary
               else if 3 < length elems then
                 (case nestedCertificate elems of
                    Some elem \<Rightarrow> (case toDer F elem of Inl testError \<Rightarrow> None | Inr der \<Rightarrow> Some der)
                  | None \<Rightarrow>
                      (case rawScan F bs scanPos structEnd scanPos of
                         [] \<Rightarrow> None
                       | c # cs \<Rightarrow>
                           (case firstAadhaar F (c # cs) of
                              Some b \<Rightarrow> Some b
                            | None \<Rightarrow> Some (buffer (largest cs c)))))
               else None))"

text \<open>
  \<open>while (scanPos < sectionEnd && scanPos < bytes.length)\<close>. A SEQUENCE with an
  \<open>undefined\<close> length makes \<open>scanPos\<close> \<open>NaN\<close> and ends the loop. A declared length that
  is negative as a 32-bit integer can move \<open>scanPos\<close> backwards or leave it where it is:
  the loop need not end, and then the result is \<open>None\<close>. Otherwise the result is
  \<open>Some\<close> of the certificate returned, if any. The slice becomes a string by
  \<open>String.fromCharCode.apply\<close> before the \<open>try\<close> block; the error that an engine raises
  there for a slice of more bytes than a call can have arguments (of the order of
  100000) is not modelled.
\<close>

partial_function (option) sequenceScan ::
    "forge \<Rightarrow> bytes \<Rightarrow> int \<Rightarrow> int \<Rightarrow> bytes option option" where
  "sequenceScan F bs sectionEnd scanPos =
     (if scanPos < sectionEnd \<and> scanPos < int (length bs) then
        (if byteAt bs scanPos = Some 0x30 then
           (case seqTagLength bs scanPos of
              (None, seqLengthBytes) \<Rightarrow>
                (case trySequence F bs scanPos 0 (jsSlice bs scanPos 0) of
                   Some cert \<Rightarrow> Some (Some cert)
                 | None \<Rightarrow> Some None)
            | (Some seqLength, seqLengthBytes) \<Rightarrow>
                (case trySequence F bs scanPos (scanPos + seqLengthBytes + seqLength)
                        (jsSlice bs scanPos (scanPos + seqLengthBytes + seqLength)) of
                   Some cert \<Rightarrow> Some (Some cert)
                 | None \<Rightarrow> sequenceScan F bs sectionEnd (scanPos + (seqLengthBytes + seqLength))))
         else sequenceScan F bs sectionEnd (scanPos + 1))
      else Some None)"

declare sequenceScan.simps [code]

text \<open>\<open>for (let i = 0; i < bytes.length - 4; i++) if (bytes[i] === 0xA0) ...\<close>.\<close>

function strategy1From :: "forge \<Rightarrow> bytes \<Rightarrow> nat \<Rightarrow> bytes option option" where
  "strategy1From F bs i =
     (if int i < int (length bs) - 4 then
        (if byteAt bs (int i) = Some 0xA0 then
           (case a0TagLength bs (int i) of
              (contentStart, certSectionLength) \<Rightarrow>
                (case sequenceScan F bs (contentStart + certSectionLength) contentStart of
                   None \<Rightarrow> None
                 | Some (Some cert) \<Rightarrow> Some (Some cert)
                 | Some None \<Rightarrow> strategy1From F bs (i + 1)))
         else strategy1From F bs (i + 1))
      else Some None)"
  by pat_completeness auto
termination
  by (relation "measure (\<lambda>(F, bs, i). length bs - i)") auto

declare strategy1From.simps [simp del]

subsection \<open>Strategy 2: the first long-form SEQUENCE of a plausible size\<close>

text \<open>Lines 473 to 520: \<open>certLength < 400 || certLength > 10000\<close> is skipped, and a
  parsed slice needs \<open>testAsn1.value.length >= 3\<close>.\<close>

definition strategy2At :: "forge \<Rightarrow> bytes \<Rightarrow> nat \<Rightarrow> bytes option" where
  "strategy2At F bs i =
     (if longFormAt bs (int i) then
        (let certLength = declaredLength bs (int i);
             lengthOffset = 2 + int (numLengthBytesAt bs (int i))
         in if certLength < 400 \<or> 10000 < certLength then None
            else if int (length bs) < int i + lengthOffset + certLength then None
            else (let certBytes = jsSlice bs (int i) (int i + lengthOffset + certLength) in
                  case fromDer F certBytes of
                    Inl testError \<Rightarrow> None
                  | Inr testAsn1 \<Rightarrow>
                      (case arrayLength testAsn1 of
                         None \<Rightarrow> None
                       | Some n \<Rightarrow> if 3 \<le> n then Some certBytes else None)))
      else None)"

function strategy2From :: "forge \<Rightarrow> bytes \<Rightarrow> nat \<Rightarrow> bytes option" where
  "strategy2From F bs i =
     (if int i < int (length bs) - 100 then
        (case strategy2At F bs i of
           Some cert \<Rightarrow> Some cert
         | None \<Rightarrow> strategy2From F bs (i + 1))
      else None)"
  by pat_completeness auto
termination
  by (relation "measure (\<lambda>(F, bs, i). length bs - i)") auto

declare strategy2From.simps [simp del]

subsection \<open>\<open>extractCertificateByPattern\<close>\<close>

text \<open>The result is \<open>None\<close> when the scan of strategy 1 does not end.\<close>

definition extractCertificateByPattern :: "forge \<Rightarrow> bytes \<Rightarrow> (error + bytes) option" where
  "extractCertificateByPattern F pkcs7Binary =
     (case scanForCertificates F pkcs7Binary of
        c # cs \<Rightarrow>
          (case firstAadhaar F (c # cs) of
             Some b \<Rightarrow> Some (Inr b)
           | None \<Rightarrow> Some (Inr (buffer c)))
      | [] \<Rightarrow>
          (case strategy1From F pkcs7Binary 0 of
             None \<Rightarrow> None
           | Some (Some cert) \<Rightarrow> Some (Inr cert)
           | Some None \<Rightarrow>
               (case strategy2From F pkcs7Binary 0 of
                  Some cert \<Rightarrow> Some (Inr cert)
                | None \<Rightarrow>
                    Some (Inl (''Pattern-based extraction failed: '' @
                      ''Could not find valid certificate in PKCS#7 data using any extraction strategy'')))))"

section \<open>Pkcs7Decoder: \<open>extractCertificateFromASN1\<close> and \<open>extractCertificateFromPKCS7\<close>\<close>

text \<open>The search of \<open>extractCertificateFromASN1\<close> for the certificates field: a
  sub-field with \<open>tagClass === 2\<close> and \<open>type === 0\<close> whose value is a non-empty array,
  inside a field with \<open>tagClass === 0\<close> and \<open>type === 16\<close>; the first element of the
  first such sub-field is the certificate.\<close>

fun certificatesField :: "asn1 list \<Rightarrow> asn1 option" where
  "certificatesField [] = None"
| "certificatesField (subField # subFields) =
     (if tagClass subField = 2 \<and> asn1Type subField = 0 then
        (case asn1Value subField of
           Nodes (certAsn1 # others) \<Rightarrow> Some certAsn1
         | _ \<Rightarrow> certificatesField subFields)
      else certificatesField subFields)"

fun contentField :: "asn1 list \<Rightarrow> asn1 option" where
  "contentField [] = None"
| "contentField (field # rest) =
     (if tagClass field = 0 \<and> asn1Type field = 16 then
        (case asn1Value field of
           Nodes subFields \<Rightarrow>
             (case certificatesField subFields of
                Some certAsn1 \<Rightarrow> Some certAsn1
              | None \<Rightarrow> contentField rest)
         | Bytes s \<Rightarrow> contentField rest)
      else contentField rest)"

text \<open>\<open>catch (error)\<close> around a result that may also be missing (a scan that does not
  end).\<close>

definition rethrowOpt :: "string \<Rightarrow> (error + 'a) option \<Rightarrow> (error + 'a) option" where
  "rethrowOpt prefix r = map_option (rethrow prefix) r"

definition extractCertificateFromASN1 :: "forge \<Rightarrow> bytes \<Rightarrow> (error + bytes) option" where
  "extractCertificateFromASN1 F asn1Binary =
     rethrowOpt ''Failed to extract certificate from ASN.1: ''
       (case fromDer F asn1Binary of
          Inl parseError \<Rightarrow>
            if parseError \<noteq> [] \<and> includesPart parseError ''Unparsed DER bytes''
            then extractCertificateByPattern F asn1Binary
            else Some (Inl parseError)
        | Inr a \<Rightarrow>
            (case (case asn1Value a of Bytes s \<Rightarrow> None | Nodes fs \<Rightarrow> contentField fs) of
               Some certAsn1 \<Rightarrow> Some (toDer F certAsn1)
             | None \<Rightarrow> Some (Inl ''Could not find certificate in ASN.1 structure'')))"

text \<open>\<open>extractCertificateFromPKCS7\<close>: the first certificate of the parsed message; after
  any error of the standard parsing, the certificate found in the ASN.1; without an
  error and without certificates, the error \<open>No certificates found in signature\<close>.\<close>

definition standardPkcs7 :: "forge \<Rightarrow> bytes \<Rightarrow> error + bytes option" where
  "standardPkcs7 F pkcs7Binary =
     (case fromDer F pkcs7Binary of
        Inl e \<Rightarrow> Inl e
      | Inr p7Asn1 \<Rightarrow>
          (case messageFromAsn1 F p7Asn1 of
             Inl e \<Rightarrow> Inl e
           | Inr None \<Rightarrow> Inr None
           | Inr (Some []) \<Rightarrow> Inr None
           | Inr (Some (cert # certs)) \<Rightarrow>
               (case certificateToAsn1 F cert of
                  Inl e \<Rightarrow> Inl e
                | Inr certAsn1 \<Rightarrow>
                    (case toDer F certAsn1 of Inl e \<Rightarrow> Inl e | Inr certDer \<Rightarrow> Inr (Some certDer)))))"

definition extractCertificateFromPKCS7 :: "forge \<Rightarrow> bytes \<Rightarrow> (error + bytes) option" where
  "extractCertificateFromPKCS7 F pkcs7Binary =
     rethrowOpt ''Failed to extract certificate from PKCS#7: ''
       (case standardPkcs7 F pkcs7Binary of
          Inr (Some certDer) \<Rightarrow> Some (Inr certDer)
        | Inr None \<Rightarrow> Some (Inl ''No certificates found in signature'')
        | Inl pkcs7Error \<Rightarrow> extractCertificateFromASN1 F pkcs7Binary)"

section \<open>CandidateSelector: \<open>extractCertificateFromPDF\<close> and its callers\<close>

text \<open>
  The loop over the signatures: the certificate of the first signature whose certificate
  is extracted, parses and has Aadhaar data. An error of the extraction or of the parse
  moves on to the next signature. The outer \<open>None\<close> is an extraction that does not end.
\<close>

fun firstAadhaarSignature :: "forge \<Rightarrow> string list \<Rightarrow> bytes option option" where
  "firstAadhaarSignature F [] = Some None"
| "firstAadhaarSignature F (signatureHex # rest) =
     (case extractCertificateFromPKCS7 F (hexToBytes signatureHex) of
        None \<Rightarrow> None
      | Some (Inl extractError) \<Rightarrow> firstAadhaarSignature F rest
      | Some (Inr cert) \<Rightarrow>
          (case parseCertificateFromBuffer F cert of
             Inl parseError \<Rightarrow> firstAadhaarSignature F rest
           | Inr details \<Rightarrow>
               if hasAadhaarData details then Some (Some cert)
               else firstAadhaarSignature F rest))"

text \<open>\<open>extractCertificateFromPDF\<close> on the latin1 text of the buffer. Without a match
  it fails; when no signature has Aadhaar data it returns what the extraction gives for
  the first signature.\<close>

definition extractCertificateFromPDF :: "forge \<Rightarrow> string \<Rightarrow> (error + bytes) option" where
  "extractCertificateFromPDF F pdfString =
     rethrowOpt ''Failed to extract certificate from PDF: ''
       (case map snd (sigMatches pdfString) of
          [] \<Rightarrow> Some (Inl ''No signature found in PDF. The PDF may not be digitally signed.'')
        | first # rest \<Rightarrow>
            (case firstAadhaarSignature F (first # rest) of
               None \<Rightarrow> None
             | Some (Some cert) \<Rightarrow> Some (Inr cert)
             | Some None \<Rightarrow> extractCertificateFromPKCS7 F (hexToBytes first)))"

text \<open>\<open>isPDF\<close>: the first five bytes are \<open>%PDF-\<close>.\<close>

definition isPDF :: "string \<Rightarrow> bool" where
  "isPDF buf = (take 5 buf = ''%PDF-'')"

text \<open>
  \<open>processSinglePDF\<close> of the batch processor, from the buffer it reads: the check of the
  header, the extraction and the parse, with the \<open>error\<close> of its result as \<open>Inl\<close>. (The
  copy of the certificate it saves for inspection is left out.)
\<close>

definition processSinglePDF :: "forge \<Rightarrow> string \<Rightarrow> (error + aadhaarDetails) option" where
  "processSinglePDF F pdfBuffer =
     (if \<not> isPDF pdfBuffer then Some (Inl ''File is not a valid PDF'')
      else (case extractCertificateFromPDF F pdfBuffer of
              None \<Rightarrow> None
            | Some (Inl extractError) \<Rightarrow> Some (Inl (''Failed to extract certificate: '' @ extractError))
            | Some (Inr certBuffer) \<Rightarrow>
                Some (rethrow ''Failed to parse certificate: '' (parseCertificateFromBuffer F certBuffer))))"

section \<open>A strict DER library, for running the code on concrete inputs\<close>

text \<open>
  A library to put in the place of node-forge when the code is evaluated: a reader and a
  writer of definite-length DER, the OID, hex and time decoders, and a certificate and
  message parser that accepts nothing (node-forge refuses what is not an X509v3
  certificate with an RSA key, or not a PKCS#7 ContentInfo, with these messages). It is
  used by the witnesses and counterexamples only.
\<close>

definition derLength :: "bytes \<Rightarrow> (nat \<times> bytes) option" where
  "derLength bs =
     (case bs of
        [] \<Rightarrow> None
      | b # rest \<Rightarrow>
          if b < 128 then Some (b, rest)
          else if b = 128 \<or> length rest < b - 128 then None
          else Some (foldl (\<lambda>a x. a * 256 + x) 0 (take (b - 128) rest), drop (b - 128) rest))"

fun derValue :: "nat \<Rightarrow> bytes \<Rightarrow> (asn1 \<times> bytes) option"
  and derValues :: "nat \<Rightarrow> bytes \<Rightarrow> asn1 list option" where
  "derValue fuel bs =
     (if fuel = 0 then None
      else (case bs of
              [] \<Rightarrow> None
            | t # rest \<Rightarrow>
                (case derLength rest of
                   None \<Rightarrow> None
                 | Some (len, body) \<Rightarrow>
                     if length body < len then None
                     else if (t div 32) mod 2 = 1
                     then (case derValues (fuel - 1) (take len body) of
                             None \<Rightarrow> None
                           | Some xs \<Rightarrow>
                               Some (Asn1 ((t div 64) * 64) (t mod 32) True (Nodes xs), drop len body))
                     else Some (Asn1 ((t div 64) * 64) (t mod 32) False (Bytes (take len body)),
                                drop len body))))"
| "derValues fuel bs =
     (if bs = [] then Some []
      else if fuel = 0 then None
      else (case derValue (fuel - 1) bs of
              None \<Rightarrow> None
            | Some (x, rest) \<Rightarrow> map_option ((#) x) (derValues (fuel - 1) rest)))"

declare derValue.simps [simp del] derValues.simps [simp del]

definition derParse :: "bytes \<Rightarrow> error + asn1" where
  "derParse bs =
     (case derValue (2 * length bs) bs of
        None \<Rightarrow> Inl ''Too few bytes to parse DER.''
      | Some (a, rest) \<Rightarrow>
          if rest = [] then Inr a else Inl ''Unparsed DER bytes remain after ASN.1 parsing.'')"

fun base256 :: "nat \<Rightarrow> bytes" where
  "base256 n = (if n < 256 then [n] else base256 (n div 256) @ [n mod 256])"

declare base256.simps [simp del]

definition derLengthBytes :: "nat \<Rightarrow> bytes" where
  "derLengthBytes n = (if n < 128 then [n] else (128 + length (base256 n)) # base256 n)"

fun derEncode :: "asn1 \<Rightarrow> bytes" and derContent :: "asn1Val \<Rightarrow> bytes" where
  "derEncode (Asn1 cls typ c v) =
     (cls + (if c then 32 else 0) + typ) # derLengthBytes (length (derContent v)) @ derContent v"
| "derContent (Bytes s) = s"
| "derContent (Nodes xs) = concat (map derEncode xs)"

fun showNat :: "nat \<Rightarrow> string" where
  "showNat n = (if n < 10 then [char_of (48 + n)] else showNat (n div 10) @ [char_of (48 + n mod 10)])"

declare showNat.simps [simp del]

fun oidArcs :: "nat \<Rightarrow> bytes \<Rightarrow> nat list" where
  "oidArcs acc [] = []"
| "oidArcs acc (b # bs) =
     (if b < 128 then (acc * 128 + b) # oidArcs 0 bs else oidArcs (acc * 128 + (b - 128)) bs)"

fun dotted :: "nat list \<Rightarrow> string" where
  "dotted [] = []"
| "dotted [n] = showNat n"
| "dotted (n # ns) = showNat n @ ''.'' @ dotted ns"

definition oidText :: "asn1Val option \<Rightarrow> error + string" where
  "oidText v =
     (case v of
        Some (Bytes (b # bs)) \<Rightarrow> Inr (dotted (b div 40 # b mod 40 # oidArcs 0 bs))
      | _ \<Rightarrow> Inl typeError)"

definition hexDigit :: "nat \<Rightarrow> char" where
  "hexDigit d = ''0123456789abcdef'' ! d"

definition hexText :: "asn1Val \<Rightarrow> error + string" where
  "hexText v =
     (case v of
        Bytes s \<Rightarrow> Inr (concat (map (\<lambda>b. [hexDigit ((b div 16) mod 16), hexDigit (b mod 16)]) s))
      | Nodes xs \<Rightarrow> Inr [])"

text \<open>The time of a UTC date (days from the civil date), and the times written
  \<open>YYMMDDhhmmssZ\<close> and \<open>YYYYMMDDhhmmssZ\<close>; the stand-in does not read the other forms.\<close>

definition utcMillis :: "int \<Rightarrow> int \<Rightarrow> int \<Rightarrow> int \<Rightarrow> int \<Rightarrow> int \<Rightarrow> int" where
  "utcMillis y m d hh mm ss =
     (let y1 = (if m \<le> 2 then y - 1 else y);
          era = y1 div 400;
          yoe = y1 - era * 400;
          doy = (153 * (m + (if 2 < m then - 3 else 9)) + 2) div 5 + d - 1;
          doe = yoe * 365 + yoe div 4 - yoe div 100 + doy;
          days = era * 146097 + doe - 719468
      in (((days * 24 + hh) * 60 + mm) * 60 + ss) * 1000)"

definition twoDigits :: "string \<Rightarrow> nat \<Rightarrow> int option" where
  "twoDigits s k = parseInt (take 2 (drop k s)) 10"

definition timeOf :: "int option list \<Rightarrow> jsnumber" where
  "timeOf parts =
     (case parts of
        [Some y, Some m, Some d, Some hh, Some mm, Some ss] \<Rightarrow> Number (utcMillis y m d hh mm ss)
      | _ \<Rightarrow> NaN)"

definition utcTime :: "asn1Val option \<Rightarrow> error + jsnumber" where
  "utcTime v =
     (case v of
        Some (Bytes bs) \<Rightarrow>
          (let s = bytesText bs in
           if length s = 13 \<and> s ! 12 = CHR ''Z''
           then Inr (timeOf [map_option (\<lambda>yy. if 50 \<le> yy then 1900 + yy else 2000 + yy) (twoDigits s 0),
                             twoDigits s 2, twoDigits s 4, twoDigits s 6, twoDigits s 8, twoDigits s 10])
           else Inr NaN)
      | _ \<Rightarrow> Inl typeError)"

definition generalizedTime :: "asn1Val option \<Rightarrow> error + jsnumber" where
  "generalizedTime v =
     (case v of
        Some (Bytes bs) \<Rightarrow>
          (let s = bytesText bs in
           if length s = 15 \<and> s ! 14 = CHR ''Z''
           then Inr (timeOf [parseInt (take 4 s) 10, twoDigits s 4, twoDigits s 6, twoDigits s 8,
                             twoDigits s 10, twoDigits s 12])
           else Inr NaN)
      | _ \<Rightarrow> Inl typeError)"

definition strictForge :: forge where
  "strictForge =
     \<lparr>fromDer = derParse,
      toDer = (\<lambda>a. Inr (derEncode a)),
      bytesToHex = hexText,
      utcTimeToDate = utcTime,
      generalizedTimeToDate = generalizedTime,
      derToOid = oidText,
      decodeUtf8 = (\<lambda>xs. Inl typeError),
      certificateFromAsn1 =
        (\<lambda>a. Inl ''Cannot read X.509 certificate. ASN.1 object is not an X509v3 Certificate.''),
      certificateFromPem = (\<lambda>s. Inl ''Invalid PEM formatted message.''),
      certificateToAsn1 = (\<lambda>c. Inl typeError),
      messageFromAsn1 =
        (\<lambda>a. Inl ''Cannot read PKCS#7 message. ASN.1 object is not an PKCS#7 ContentInfo.'')\<rparr>"

section \<open>Notions used to state the properties\<close>

text \<open>A field of the TBSCertificate that the loop of \<open>extractFromAsn1\<close> takes for a
  name: a SEQUENCE whose first element is a SET. The fields the loop runs over, and the
  state it starts from.\<close>

definition isNameField :: "asn1 \<Rightarrow> bool" where
  "isNameField field =
     (asn1Type field = SEQUENCE \<and> 0 < valLength (asn1Value field) \<and>
      (case valAt (asn1Value field) 0 of Node n \<Rightarrow> asn1Type n = SET | _ \<Rightarrow> False))"

definition tbsFieldList :: "asn1 \<Rightarrow> asn1 list" where
  "tbsFieldList tbsCertificate =
     (case asn1Value tbsCertificate of Bytes s \<Rightarrow> [] | Nodes fs \<Rightarrow> fs)"

definition tbsInit :: tbsState where
  "tbsInit = \<lparr>subjectAsn1 = None, issuerAsn1 = None, validity = None, serial = None\<rparr>"

text \<open>The text fields of a record are values of the subject's and the issuer's
  attributes, decoded as the identity decoder does, or \<open>NA\<close>.\<close>

definition textFieldsFrom :: "attributes \<Rightarrow> attributes \<Rightarrow> aadhaarDetails \<Rightarrow> bool" where
  "textFieldsFrom sa ia d =
     (signerName d \<in> insert NA (ran sa) \<and> tpin d \<in> insert NA (ran sa) \<and>
      state d \<in> insert NA (ran sa) \<and> pincode d \<in> insert NA (ran sa) \<and>
      (gender d = NA \<or> (\<exists>q \<in> ran sa. 5 \<le> length q \<and> gender d = [toUpperCase (q ! 4)])) \<and>
      (yob d = NA \<or> (\<exists>q \<in> ran sa. 4 \<le> length q \<and> yob d = take 4 q)) \<and>
      issuerName d \<in> insert NA (ran ia) \<and> issuerOrganisation d \<in> insert NA (ran ia))"

text \<open>Where the serial number and the expiry of a record come from: the hex of an
  INTEGER field, and the time decoded from the second element of a two-element
  SEQUENCE field.\<close>

definition serialFrom :: "forge \<Rightarrow> asn1 list \<Rightarrow> string \<Rightarrow> bool" where
  "serialFrom F flds h =
     (\<exists>f \<in> set flds. asn1Type f = INTEGER \<and> bytesToHex F (asn1Value f) = Inr h)"

definition expiryFrom :: "forge \<Rightarrow> asn1 list \<Rightarrow> jsnumber \<Rightarrow> bool" where
  "expiryFrom F flds t =
     (\<exists>f \<in> set flds. asn1Type f = SEQUENCE \<and> valLength (asn1Value f) = 2 \<and>
        (utcTimeToDate F (elementValue (valAt (asn1Value f) 1)) = Inr t \<or>
         generalizedTimeToDate F (elementValue (valAt (asn1Value f) 1)) = Inr t))"

text \<open>A certificate of the signer's kind: version, serial number, an ECDSA algorithm
  identifier, an issuer, a validity and a subject with the Aadhaar attributes.\<close>

definition rdn :: "bytes \<Rightarrow> string \<Rightarrow> asn1" where
  "rdn oid txt =
     Asn1 0 17 True (Nodes
       [Asn1 0 16 True (Nodes [Asn1 0 6 False (Bytes oid), Asn1 0 19 False (Bytes (map of_char txt))])])"

definition sampleTbs :: asn1 where
  "sampleTbs =
     Asn1 0 16 True (Nodes
       [Asn1 128 0 True (Nodes [Asn1 0 2 False (Bytes [2])]),
        Asn1 0 2 False (Bytes [0x05, 0xA1]),
        Asn1 0 16 True (Nodes [Asn1 0 6 False (Bytes [0x2A, 0x86, 0x48, 0xCE, 0x3D, 0x04, 0x03, 0x02])]),
        Asn1 0 16 True (Nodes [rdn [0x55, 0x04, 0x03] ''CA'', rdn [0x55, 0x04, 0x0A] ''ORG'']),
        Asn1 0 16 True (Nodes
          [Asn1 0 23 False (Bytes (map of_char ''240101000000Z'')),
           Asn1 0 23 False (Bytes (map of_char ''251231235959Z''))]),
        Asn1 0 16 True (Nodes
          [rdn [0x55, 0x04, 0x03] ''RAM'', rdn [0x55, 0x04, 0x0C] ''ABCD1234'',
           rdn [0x55, 0x04, 0x08] ''KA'', rdn [0x55, 0x04, 0x2E] ''1990F56789'',
           rdn [0x55, 0x04, 0x11] ''560001''])])"

definition sampleCertificate :: asn1 where
  "sampleCertificate =
     Asn1 0 16 True (Nodes
       [sampleTbs,
        Asn1 0 16 True (Nodes [Asn1 0 6 False (Bytes [0x2A, 0x86, 0x48, 0xCE, 0x3D, 0x04, 0x03, 0x02])]),
        Asn1 0 4 False (Bytes [0x00])])"

text \<open>Certificates to run the code on: one whose TBSCertificate is empty, and one with a
  serial number and a single name, which the loop takes for the issuer.\<close>

definition emptyTbsCertificate :: asn1 where
  "emptyTbsCertificate = Asn1 0 16 True (Nodes [Asn1 0 16 True (Nodes [])])"

definition oneNameTbs :: asn1 where
  "oneNameTbs =
     Asn1 0 16 True (Nodes
       [Asn1 0 2 False (Bytes [0x05]),
        Asn1 0 16 True (Nodes
          [Asn1 0 17 True (Nodes
             [Asn1 0 16 True (Nodes
                [Asn1 0 6 False (Bytes [0x55, 0x04, 0x03]),
                 Asn1 0 19 False (Bytes [0x43, 0x41])])])])])"

definition oneNameCertificate :: asn1 where
  "oneNameCertificate = Asn1 0 16 True (Nodes [oneNameTbs])"

text \<open>
  The admissibility test of the direct scan, for a found certificate: it stands at a
  SEQUENCE tag followed by \<open>0x82\<close> or \<open>0x83\<close>, the declared length is between 500 and
  10000, the size is the header and the declared length, the slice lies within the
  bytes and is exactly that long, and the library parses it to three top-level
  elements.
\<close>

definition admissible :: "forge \<Rightarrow> bytes \<Rightarrow> foundCert \<Rightarrow> bool" where
  "admissible F bs c =
     (0 \<le> certOffset c \<and> longFormAt bs (certOffset c) \<and>
      500 \<le> declaredLength bs (certOffset c) \<and> declaredLength bs (certOffset c) \<le> 10000 \<and>
      certSize c = 2 + int (numLengthBytesAt bs (certOffset c)) + declaredLength bs (certOffset c) \<and>
      certOffset c + certSize c \<le> int (length bs) \<and>
      buffer c = take (nat (certSize c)) (drop (nat (certOffset c)) bs) \<and>
      (\<exists>a. fromDer F (buffer c) = Inr a \<and> arrayLength a = Some 3))"

text \<open>Byte sequences to run the scans on: a SEQUENCE of three elements with a declared
  length of 500 and one with a declared length of 400 (an OCTET STRING of zeros and two
  NULLs), and a short certificates section behind an \<open>0xA0\<close> tag with one byte after
  it.\<close>

definition sequence500 :: bytes where
  "sequence500 = [0x30, 0x82, 0x01, 0xF4, 0x04, 0x82, 0x01, 0xEC] @ replicate 492 0 @ [5, 0, 5, 0]"

definition sequence400 :: bytes where
  "sequence400 = [0x30, 0x82, 0x01, 0x90, 0x04, 0x82, 0x01, 0x88] @ replicate 392 0 @ [5, 0, 5, 0]"

definition shortSection :: bytes where
  "shortSection = [0xA0, 8, 0x30, 6, 0x30, 0, 5, 0, 5, 0, 0]"

text \<open>
  A signature candidate qualifies when its certificate is extracted, parses and has
  Aadhaar data. \<open>signatureResult\<close> is what the batch entry point makes of one signature:
  the record of its certificate, or the error of its extraction or of its parse.
\<close>

definition qualifies :: "forge \<Rightarrow> string \<Rightarrow> bool" where
  "qualifies F signatureHex =
     (case extractCertificateFromPKCS7 F (hexToBytes signatureHex) of
        Some (Inr cert) \<Rightarrow>
          (case parseCertificateFromBuffer F cert of
             Inr details \<Rightarrow> hasAadhaarData details
           | Inl e \<Rightarrow> False)
      | _ \<Rightarrow> False)"

definition signatureResult :: "forge \<Rightarrow> string \<Rightarrow> (error + aadhaarDetails) option" where
  "signatureResult F signatureHex =
     (case extractCertificateFromPKCS7 F (hexToBytes signatureHex) of
        None \<Rightarrow> None
      | Some (Inl e) \<Rightarrow>
          Some (Inl (''Failed to extract certificate: '' @ ''Failed to extract certificate from PDF: '' @ e))
      | Some (Inr cert) \<Rightarrow>
          Some (rethrow ''Failed to parse certificate: '' (parseCertificateFromBuffer F cert)))"

text \<open>Documents to run the pipeline on: the hex of a certificates section that holds a
  certificate without Aadhaar data, and of one that holds a certificate whose subject
  has the title \<open>X1\<close>.\<close>

definition brokenSignature :: string where
  "brokenSignature = ''00''"

definition plainSignature :: string where
  "plainSignature = ''A008300630000500050000''"

definition aadhaarSignature :: string where
  "aadhaarSignature =
     ''A0253023301D300C310A30080603550403130143300D310B3009060355040C130258310500050000''"

definition aadhaarCertificate :: bytes where
  "aadhaarCertificate =
     [48, 35, 48, 29, 48, 12, 49, 10, 48, 8, 6, 3, 85, 4, 3, 19, 1, 67, 48, 13, 49, 11, 48, 9,
      6, 3, 85, 4, 12, 19, 2, 88, 49, 5, 0, 5, 0]"

definition plainDetails :: aadhaarDetails where
  "plainDetails =
     \<lparr>serialNumber = NA, endDate = Number 0, signerName = NA, tpin = NA, state = NA,
      gender = NA, yob = NA, pincode = NA, issuerName = NA, issuerOrganisation = NA\<rparr>"

definition aadhaarDocument :: string where
  "aadhaarDocument =
     ''%PDF-/Contents<'' @ brokenSignature @ ''>/Contents<'' @ aadhaarSignature @ ''>''"

definition plainDocument :: string where
  "plainDocument =
     ''%PDF-/Contents<'' @ brokenSignature @ ''>/Contents<'' @ plainSignature @ ''>''"

definition headlessDocument :: string where
  "headlessDocument = ''/Contents<'' @ plainSignature @ ''>''"

text \<open>A document whose signature makes the scan of strategy 1 stand still: after a NULL
  (so that the library reports unparsed bytes and the byte patterns are tried) an
  indefinite-length \<open>0xA0\<close> section holds a SEQUENCE with the four-byte length
  \<open>FF FF FF FA\<close>, which is \<open>-6\<close> as a 32-bit integer.\<close>

definition stuckSignature :: string where
  "stuckSignature = ''0500A0803084FFFFFFFA0000''"

definition stuckDocument :: string where
  "stuckDocument = ''%PDF-/Contents<'' @ stuckSignature @ ''>''"

text \<open>The certificate \<open>sampleCertificate\<close> signed with RSA: the algorithm identifier is
  the OID \<open>1.2.840.113549.1.1.11\<close> (sha256WithRSAEncryption) with its NULL
  parameters, in the TBSCertificate and after it.\<close>

definition rsaAlgorithm :: asn1 where
  "rsaAlgorithm =
     Asn1 0 16 True (Nodes
       [Asn1 0 6 False (Bytes [0x2A, 0x86, 0x48, 0x86, 0xF7, 0x0D, 0x01, 0x01, 0x0B]),
        Asn1 0 5 False (Bytes [])])"

definition rsaSignedTbs :: asn1 where
  "rsaSignedTbs =
     Asn1 0 16 True (Nodes
       [Asn1 128 0 True (Nodes [Asn1 0 2 False (Bytes [2])]),
        Asn1 0 2 False (Bytes [0x05, 0xA1]),
        rsaAlgorithm,
        Asn1 0 16 True (Nodes [rdn [0x55, 0x04, 0x03] ''CA'', rdn [0x55, 0x04, 0x0A] ''ORG'']),
        Asn1 0 16 True (Nodes
          [Asn1 0 23 False (Bytes (map of_char ''240101000000Z'')),
           Asn1 0 23 False (Bytes (map of_char ''251231235959Z''))]),
        Asn1 0 16 True (Nodes
          [rdn [0x55, 0x04, 0x03] ''RAM'', rdn [0x55, 0x04, 0x0C] ''ABCD1234'',
           rdn [0x55, 0x04, 0x08] ''KA'', rdn [0x55, 0x04, 0x2E] ''1990F56789'',
           rdn [0x55, 0x04, 0x11] ''560001''])])"

definition rsaSignedCertificate :: asn1 where
  "rsaSignedCertificate =
     Asn1 0 16 True (Nodes [rsaSignedTbs, rsaAlgorithm, Asn1 0 4 False (Bytes [0x00])])"

section \<open>The Java original of the postal code decoder\<close>

text \<open>
  \<open>ReadAadhaarCertDetails.getPinCode\<close>, of which the JavaScript \<open>getPinCode\<close> is the port:
  \<open>postalCode != null && Integer.parseInt(postalCode) > 0\<close>, with the
  \<open>NumberFormatException\<close> caught. \<open>Integer.parseInt\<close> reads an optional sign and then
  decimal digits only, at least one (among the 8-bit characters of this theory the digits
  are \<open>0\<close> to \<open>9\<close>), and the value has to fit 32 bits; \<open>None\<close> is the exception.
\<close>

definition integerParseInt :: "string \<Rightarrow> int option" where
  "integerParseInt s =
     (let negative = (take 1 s = ''-'');
          ds = (if take 1 s = ''-'' \<or> take 1 s = ''+'' then drop 1 s else s);
          magnitude = int (mathInt 10 (map hexValue ds))
      in if ds = [] \<or> \<not> list_all isDecDigit ds then None
         else if negative then (if magnitude \<le> 2 ^ 31 then Some (- magnitude) else None)
         else (if magnitude < 2 ^ 31 then Some magnitude else None))"

definition getPinCodeJava :: "string option \<Rightarrow> string" where
  "getPinCodeJava postalCode =
     (case postalCode of
        None \<Rightarrow> NA
      | Some s \<Rightarrow>
          (case integerParseInt s of
             None \<Rightarrow> NA
           | Some n \<Rightarrow> if 0 < n then s else NA))"

section \<open>Properties\<close>

subsection \<open>Digits and \<open>parseInt\<close>\<close>

lemma isHexChar_digitVal:
  "isHexChar c \<Longrightarrow> \<exists>d. digitVal c = Some d \<and> d < 16"
  by (auto simp: isHexChar_def digitVal_def Let_def)

lemma digitVal_not_space:
  "digitVal c = Some d \<Longrightarrow> \<not> isStrWhiteSpace c"
  by (auto simp: isStrWhiteSpace_def digitVal_def)

lemma digitVal_not_sign:
  "digitVal c = Some d \<Longrightarrow> c \<noteq> CHR ''+'' \<and> c \<noteq> CHR ''-''"
  by (auto simp: digitVal_def)

lemma digitVal_x:
  "digitVal c = Some d \<Longrightarrow> d < 16 \<Longrightarrow> c \<noteq> CHR ''x'' \<and> c \<noteq> CHR ''X''"
  by (auto simp: digitVal_def)

lemma parseInt_hex_pair:
  assumes "digitVal a = Some x" "x < 16" "digitVal b = Some y" "y < 16"
  shows "parseInt [a, b] 16 = Some (int (16 * x + y))"
proof -
  have a: "\<not> isStrWhiteSpace a" "a \<noteq> CHR ''+''" "a \<noteq> CHR ''-''"
    using assms(1) digitVal_not_space digitVal_not_sign by blast+
  have b: "b \<noteq> CHR ''x''" "b \<noteq> CHR ''X''"
    using assms(3,4) digitVal_x by blast+
  show ?thesis
    using a b assms by (simp add: parseInt_def mathInt_def)
qed

lemma digitsPrefix_len: "length (digitsPrefix R s) \<le> length s"
  by (induction s) (auto split: option.splits)

lemma digitsPrefix_lt: "\<forall>d\<in>set (digitsPrefix R s). d < R"
  by (induction s) (auto split: option.splits)

lemma digitsPrefix_all:
  "list_all (\<lambda>c. \<exists>d. digitVal c = Some d \<and> d < R) s \<Longrightarrow> digitsPrefix R s = map hexValue s"
  by (induction s) (auto simp: hexValue_def)

lemma digitsPrefix_full:
  "length (digitsPrefix R s) = length s \<Longrightarrow>
   list_all (\<lambda>c. \<exists>d. digitVal c = Some d \<and> d < R) s"
proof (induction s)
  case Nil
  then show ?case by simp
next
  case (Cons c s)
  have l: "length (digitsPrefix R s) \<le> length s" by (rule digitsPrefix_len)
  from Cons.prems l obtain d where d: "digitVal c = Some d" "d < R"
    by (auto split: option.splits if_splits)
  with Cons show ?case by simp
qed

lemma mathInt_snoc: "mathInt R (ds @ [d]) = mathInt R ds * R + d"
  by (simp add: mathInt_def)

lemma mathInt_bound: "\<forall>d\<in>set ds. d < R \<Longrightarrow> mathInt R ds < R ^ length ds"
proof (induction ds rule: rev_induct)
  case Nil
  then show ?case by (simp add: mathInt_def)
next
  case (snoc d ds)
  then have a: "mathInt R ds < R ^ length ds" and d: "d < R" by simp_all
  then have "mathInt R ds + 1 \<le> R ^ length ds" by simp
  then have "(mathInt R ds + 1) * R \<le> R ^ length ds * R" by (rule mult_le_mono1)
  moreover have "mathInt R ds * R + d < (mathInt R ds + 1) * R" using d by simp
  ultimately have "mathInt R ds * R + d < R ^ length ds * R" by (rule_tac less_le_trans)
  then show ?case by (simp add: mathInt_snoc mult.commute)
qed

lemma dropWhile_same_length:
  assumes "length (dropWhile P xs) = length xs"
  shows "dropWhile P xs = xs"
proof (cases xs)
  case Nil
  then show ?thesis by simp
next
  case (Cons x ys)
  have "length (dropWhile P ys) \<le> length ys" by (rule length_dropWhile_le)
  with assms Cons have "\<not> P x" by auto
  with Cons show ?thesis by simp
qed

lemma isDecDigit_digitVal: "isDecDigit c \<longleftrightarrow> (\<exists>d. digitVal c = Some d \<and> d < 10)"
  by (auto simp: isDecDigit_def digitVal_def Let_def split: if_splits)

text \<open>On a text of decimal digits \<open>parseInt\<close> is the decimal value.\<close>

lemma parseInt_decimal:
  assumes "list_all isDecDigit t" "t \<noteq> []"
  shows "parseInt t 0 = Some (int (mathInt 10 (map hexValue t)))"
proof -
  obtain c cs where t: "t = c # cs" using assms(2) by (cases t) auto
  from assms(1) t obtain d where d: "digitVal c = Some d" "d < 10"
    by (auto simp: isDecDigit_digitVal)
  have c: "\<not> isStrWhiteSpace c" "c \<noteq> CHR ''+''" "c \<noteq> CHR ''-''"
    using d digitVal_not_space digitVal_not_sign by blast+
  have all: "list_all (\<lambda>c. \<exists>d. digitVal c = Some d \<and> d < 10) (c # cs)"
    using assms(1) t by (simp add: list_all_iff isDecDigit_digitVal)
  have nox: "take 2 (c # cs) \<noteq> ''0x''" "take 2 (c # cs) \<noteq> ''0X''"
  proof -
    { fix x assume "take 2 (c # cs) = [CHR ''0'', x]"
      then have "x \<in> set (c # cs)" by (metis in_set_takeD list.set_intros(1,2))
      then have "isDecDigit x" using assms(1) t by (auto simp: list_all_iff)
      then have "x \<noteq> CHR ''x'' \<and> x \<noteq> CHR ''X''" by (auto simp: isDecDigit_def) }
    then show "take 2 (c # cs) \<noteq> ''0x''" "take 2 (c # cs) \<noteq> ''0X''" by auto
  qed
  have z: "digitsPrefix 10 (c # cs) = map hexValue (c # cs)" using all by (rule digitsPrefix_all)
  have "parseInt (c # cs) 0 = Some (int (mathInt 10 (digitsPrefix 10 (c # cs))))"
    using nox c d by (auto simp: parseInt_def Let_def)
  then show ?thesis using z t by simp
qed

text \<open>A text of at most four characters that parses to 1000 or more is four decimal
  digits: white space, a sign or a \<open>0x\<close> prefix leaves too few digits.\<close>

lemma parseInt_four_digits:
  assumes p: "parseInt t 0 = Some y" and len: "length t \<le> 4" and big: "1000 \<le> y"
  shows "list_all isDecDigit t \<and> length t = 4"
proof -
  define S where "S = dropWhile isStrWhiteSpace t"
  define S1 where "S1 = (if take 1 S = ''+'' \<or> take 1 S = ''-'' then drop 1 S else S)"
  define sign :: int where "sign = (if take 1 S = ''-'' then - 1 else 1)"
  define hasPrefix where "hasPrefix = (take 2 S1 = ''0x'' \<or> take 2 S1 = ''0X'')"
  define R :: nat where "R = (if hasPrefix then 16 else 10)"
  define Z where "Z = digitsPrefix R (if hasPrefix then drop 2 S1 else S1)"
  have y: "Z \<noteq> []" "y = sign * int (mathInt R Z)"
    using p unfolding parseInt_def Let_def S_def[symmetric] S1_def[symmetric] sign_def[symmetric]
    by (auto simp: hasPrefix_def R_def Z_def split: if_splits)
  have lS: "length S \<le> length t" unfolding S_def by (rule length_dropWhile_le)
  have lS1: "length S1 \<le> length S" unfolding S1_def by simp
  have sgn: "sign = 1 \<or> sign = - 1" unfolding sign_def by simp
  have pos: "sign = 1" "1000 \<le> mathInt R Z"
    using y(2) big sgn by auto
  have bnd: "mathInt R Z < R ^ length Z"
    unfolding Z_def by (rule mathInt_bound) (rule digitsPrefix_lt)
  have nop: "\<not> hasPrefix"
  proof
    assume h: hasPrefix
    then have "length Z \<le> length S1 - 2"
      unfolding Z_def using digitsPrefix_len[of R "drop 2 S1"] by simp
    with lS lS1 len have "length Z \<le> 2" by simp
    then have "(16::nat) ^ length Z \<le> 16 ^ 2" by (intro power_increasing) simp_all
    with bnd h pos(2) show False by (simp add: R_def)
  qed
  then have R: "R = 10" and Z: "Z = digitsPrefix 10 S1" by (simp_all add: R_def Z_def)
  have lZ: "length Z \<le> length S1" unfolding Z by (rule digitsPrefix_len)
  have "\<not> length Z \<le> 3"
  proof
    assume "length Z \<le> 3"
    then have "(10::nat) ^ length Z \<le> 10 ^ 3" by (intro power_increasing) simp_all
    with bnd R pos(2) show False by simp
  qed
  with lZ lS1 lS len have eq: "length Z = 4" "length S1 = 4" "length S = 4" "length t = 4"
    by simp_all
  have St: "S = t" unfolding S_def using eq(3,4) by (intro dropWhile_same_length) (simp add: S_def)
  have "S1 = S"
  proof (rule ccontr)
    assume "S1 \<noteq> S"
    then have "S1 = drop 1 S" by (simp add: S1_def split: if_splits)
    with eq(2,3) show False by simp
  qed
  with St Z eq have "length (digitsPrefix 10 t) = length t" by simp
  then have "list_all (\<lambda>c. \<exists>d. digitVal c = Some d \<and> d < 10) t" by (rule digitsPrefix_full)
  then show ?thesis using eq(4) by (simp add: list_all_iff isDecDigit_digitVal)
qed

lemma year_strict:
  assumes "length t = 4"
  shows "(\<exists>y. parseInt t 0 = Some y \<and> 1900 < y) \<longleftrightarrow>
         (list_all isDecDigit t \<and> 1900 < mathInt 10 (map hexValue t))"
proof
  assume "\<exists>y. parseInt t 0 = Some y \<and> 1900 < y"
  then obtain y where y: "parseInt t 0 = Some y" "1900 < y" by blast
  then have d: "list_all isDecDigit t" using parseInt_four_digits[of t y] assms by simp
  moreover have "t \<noteq> []" using assms by auto
  ultimately have "parseInt t 0 = Some (int (mathInt 10 (map hexValue t)))"
    by (rule parseInt_decimal)
  with y d show "list_all isDecDigit t \<and> 1900 < mathInt 10 (map hexValue t)" by simp
next
  assume a: "list_all isDecDigit t \<and> 1900 < mathInt 10 (map hexValue t)"
  moreover have "t \<noteq> []" using assms by auto
  ultimately have "parseInt t 0 = Some (int (mathInt 10 (map hexValue t)))"
    by (simp add: parseInt_decimal)
  with a show "\<exists>y. parseInt t 0 = Some y \<and> 1900 < y" by simp
qed

subsection \<open>The qualifier decoders\<close>

lemma getBirthYear_parse:
  "4 \<le> length s \<Longrightarrow> getBirthYear (Some s) =
     (if \<exists>y. parseInt (take 4 s) 0 = Some y \<and> 1900 < y then take 4 s else NA)"
  by (auto simp: getBirthYear_def Let_def split: option.splits)

lemma getGenderInfo_fifth:
  "5 \<le> length s \<Longrightarrow> getGenderInfo (Some s) =
     (if s ! 4 \<in> set ''MmFfTt'' then [toUpperCase (s ! 4)] else NA)"
  by (auto simp: getGenderInfo_def Let_def)

lemma getGenderInfo_values: "getGenderInfo q \<in> {NA, ''M'', ''F'', ''T''}"
  by (auto simp: getGenderInfo_def Let_def toUpperCase_def char_of_def bit_Suc_0_iff
      split: option.splits)

text \<open>
  C9. The qualifier decoder, the pair \<open>(getBirthYear, getGenderInfo)\<close>, is total over
  an optional text. Without a text, or with fewer than 4 characters, both are \<open>NA\<close>.
  From 4 characters on the year is the first 4 characters exactly when they parse to an
  integer above 1900, which happens exactly when they are four decimal digits whose
  value is above 1900; otherwise the year is \<open>NA\<close>. From 5 characters on the gender is
  the upper-cased fifth character exactly when that character is one of \<open>MmFfTt\<close>, else
  \<open>NA\<close>. The two are independent: with exactly 4 characters the gender is \<open>NA\<close>
  whatever the year is.
\<close>

theorem decodeQualifier_total:
  "getBirthYear None = NA \<and> getGenderInfo None = NA \<and>
   (length s < 4 \<longrightarrow> getBirthYear (Some s) = NA \<and> getGenderInfo (Some s) = NA) \<and>
   (4 \<le> length s \<longrightarrow>
      getBirthYear (Some s) =
        (if \<exists>y. parseInt (take 4 s) 0 = Some y \<and> 1900 < y then take 4 s else NA) \<and>
      getBirthYear (Some s) =
        (if list_all isDecDigit (take 4 s) \<and> 1900 < mathInt 10 (map hexValue (take 4 s))
         then take 4 s else NA)) \<and>
   (5 \<le> length s \<longrightarrow>
      getGenderInfo (Some s) =
        (if s ! 4 \<in> set ''MmFfTt'' then [toUpperCase (s ! 4)] else NA)) \<and>
   (length s = 4 \<longrightarrow> getGenderInfo (Some s) = NA) \<and>
   getGenderInfo (Some s) \<in> {NA, ''M'', ''F'', ''T''}"
proof (intro conjI impI)
  show "getBirthYear None = NA" by (simp add: getBirthYear_def)
  show "getGenderInfo None = NA" by (simp add: getGenderInfo_def)
  show "getGenderInfo (Some s) \<in> {NA, ''M'', ''F'', ''T''}" by (rule getGenderInfo_values)
next
  assume "length s < 4"
  then show "getBirthYear (Some s) = NA" "getGenderInfo (Some s) = NA"
    by (simp_all add: getBirthYear_def getGenderInfo_def)
next
  assume l: "4 \<le> length s"
  then show p: "getBirthYear (Some s) =
      (if \<exists>y. parseInt (take 4 s) 0 = Some y \<and> 1900 < y then take 4 s else NA)"
    by (rule getBirthYear_parse)
  have "length (take 4 s) = 4" using l by simp
  then show "getBirthYear (Some s) =
      (if list_all isDecDigit (take 4 s) \<and> 1900 < mathInt 10 (map hexValue (take 4 s))
       then take 4 s else NA)"
    unfolding p by (simp only: year_strict)
next
  assume "5 \<le> length s"
  then show "getGenderInfo (Some s) =
      (if s ! 4 \<in> set ''MmFfTt'' then [toUpperCase (s ! 4)] else NA)"
    by (rule getGenderInfo_fifth)
next
  assume "length s = 4"
  then show "getGenderInfo (Some s) = NA" by (simp add: getGenderInfo_def)
qed

theorem decodeQualifier_total_witness:
  "getBirthYear (Some ''1990F56789'') = ''1990'' \<and> getGenderInfo (Some ''1990F56789'') = ''F'' \<and>
   getBirthYear (Some ''1985'') = ''1985'' \<and> getGenderInfo (Some ''1985'') = NA \<and>
   getBirthYear (Some ''19m'') = NA \<and> getGenderInfo (Some ''19m'') = NA"
  using decodeQualifier_total [of "''1990F56789''"] decodeQualifier_total [of "''1985''"]
    decodeQualifier_total [of "''19m''"]
  by (simp add: isDecDigit_def mathInt_def hexValue_def digitVal_def toUpperCase_def
      char_of_def bit_Suc_0_iff parseInt_def isStrWhiteSpace_def)

subsection \<open>The postal code decoder\<close>

lemma getPinCode_parse:
  "getPinCode (Some s) = (if \<exists>n. parseInt s 0 = Some n \<and> 0 < n then s else NA)"
  by (auto simp: getPinCode_def parseInt_def split: option.splits)

lemma parseInt_plus_decimal:
  assumes "list_all isDecDigit t" "t \<noteq> []"
  shows "parseInt (CHR ''+'' # t) 0 = Some (int (mathInt 10 (map hexValue t)))"
proof -
  have all: "list_all (\<lambda>c. \<exists>d. digitVal c = Some d \<and> d < 10) t"
    using assms(1) by (simp add: list_all_iff isDecDigit_digitVal)
  have nox: "take 2 t \<noteq> ''0x''" "take 2 t \<noteq> ''0X''"
  proof -
    { fix x assume "take 2 t = [CHR ''0'', x]"
      then have "x \<in> set t" by (metis in_set_takeD list.set_intros(1,2))
      then have "isDecDigit x" using assms(1) by (auto simp: list_all_iff)
      then have "x \<noteq> CHR ''x'' \<and> x \<noteq> CHR ''X''" by (auto simp: isDecDigit_def) }
    then show "take 2 t \<noteq> ''0x''" "take 2 t \<noteq> ''0X''" by auto
  qed
  have z: "digitsPrefix 10 t = map hexValue t" using all by (rule digitsPrefix_all)
  have "parseInt (CHR ''+'' # t) 0 = Some (int (mathInt 10 (digitsPrefix 10 t)))"
    using nox assms(2) z by (auto simp: parseInt_def Let_def isStrWhiteSpace_def)
  then show ?thesis using z by simp
qed

text \<open>On a text of decimal digits the decoder does what a strict parse does: the text is
  returned exactly when its value is positive.\<close>

lemma getPinCode_decimal:
  "list_all isDecDigit s \<Longrightarrow> s \<noteq> [] \<Longrightarrow>
   getPinCode (Some s) = (if 0 < mathInt 10 (map hexValue s) then s else NA)"
  by (simp add: getPinCode_parse parseInt_decimal)

text \<open>The port accepts every text that the Java original accepts.\<close>

lemma getPinCodeJava_accepted:
  assumes "integerParseInt s = Some n" "0 < n"
  shows "getPinCode (Some s) = s \<and> getPinCodeJava (Some s) = s"
proof -
  define ds where "ds = (if take 1 s = ''-'' \<or> take 1 s = ''+'' then drop 1 s else s)"
  from assms(1) have ds: "ds \<noteq> []" "list_all isDecDigit ds"
    by (auto simp: integerParseInt_def Let_def ds_def split: if_splits)
  from assms have minus: "take 1 s \<noteq> ''-''"
    by (auto simp: integerParseInt_def Let_def split: if_splits)
  with assms(1) have n: "n = int (mathInt 10 (map hexValue ds))"
    by (auto simp: integerParseInt_def Let_def ds_def split: if_splits)
  have "parseInt s 0 = Some n"
  proof (cases "take 1 s = ''+''")
    case True
    then have "s = CHR ''+'' # ds" by (cases s) (auto simp: ds_def)
    with ds n show ?thesis by (simp add: parseInt_plus_decimal)
  next
    case False
    with minus have "s = ds" by (simp add: ds_def)
    with ds n show ?thesis by (simp add: parseInt_decimal)
  qed
  with assms show ?thesis by (simp add: getPinCode_parse getPinCodeJava_def)
qed

lemmas java_eval = getPinCodeJava_def integerParseInt_def isDecDigit_def

text \<open>
  C10: the code at inputs where it departs from the claim. \<open>parseInt\<close> skips white space,
  reads a \<open>0x\<close> prefix as hexadecimal, takes the longest prefix of digits for the value
  and ignores what follows, so \<open>getPinCode\<close> returns texts that are not integers as postal
  codes: \<open>'12abc'\<close> (read as 12), \<open>'0x10'\<close> (16), \<open>' 5'\<close> (5), \<open>'5.5'\<close> (5) and
  \<open>'1 OR 1=1'\<close> (1). The Java original, with the strict \<open>Integer.parseInt\<close>, gives \<open>NA\<close>
  for each of them. On the four inputs that the claim names the code does what the claim
  says.
\<close>

theorem getPinCode_returns_non_integers:
  "getPinCode (Some ''12abc'') = ''12abc'' \<and> parseInt ''12abc'' 0 = Some 12 \<and>
   getPinCode (Some ''0x10'') = ''0x10'' \<and> parseInt ''0x10'' 0 = Some 16 \<and>
   getPinCode (Some '' 5'') = '' 5'' \<and> parseInt '' 5'' 0 = Some 5 \<and>
   getPinCode (Some ''5.5'') = ''5.5'' \<and> parseInt ''5.5'' 0 = Some 5 \<and>
   getPinCode (Some ''1 OR 1=1'') = ''1 OR 1=1'' \<and> parseInt ''1 OR 1=1'' 0 = Some 1 \<and>
   getPinCodeJava (Some ''12abc'') = NA \<and> getPinCodeJava (Some ''0x10'') = NA \<and>
   getPinCodeJava (Some '' 5'') = NA \<and> getPinCodeJava (Some ''5.5'') = NA \<and>
   getPinCodeJava (Some ''1 OR 1=1'') = NA \<and>
   getPinCode (Some ''0'') = NA \<and> getPinCode (Some ''-5'') = NA \<and>
   getPinCode (Some ''abc'') = NA \<and> getPinCode (Some ''560001'') = ''560001'' \<and>
   getPinCode None = NA"
  by (simp add: getPinCode_def parseInt_def isStrWhiteSpace_def digitVal_def mathInt_def
      java_eval NA_def)

subsection \<open>Hex decoding\<close>

lemma hexToBytes_pairs:
  "even (length h) \<Longrightarrow> list_all isHexChar h \<Longrightarrow>
   length (hexToBytes h) = length h div 2 \<and>
   (\<forall>i < length h div 2.
      hexToBytes h ! i = 16 * hexValue (h ! (2 * i)) + hexValue (h ! (2 * i + 1)))"
proof (induction h rule: hexToBytes.induct)
  case 1
  then show ?case by simp
next
  case (2 a)
  then show ?case by simp
next
  case (3 a b rest)
  from 3 have ha: "isHexChar a" and hb: "isHexChar b" and hr: "list_all isHexChar rest"
    and ev: "even (length rest)" by simp_all
  obtain x where x: "digitVal a = Some x" "x < 16" using ha isHexChar_digitVal by blast
  obtain y where y: "digitVal b = Some y" "y < 16" using hb isHexChar_digitVal by blast
  have p: "fromCharCode (parseInt [a, b] 16) = 16 * hexValue a + hexValue b"
    using parseInt_hex_pair[OF x y] x y by (simp add: fromCharCode_def hexValue_def)
  from 3 ev hr have ih: "length (hexToBytes rest) = length rest div 2"
    "\<forall>i < length rest div 2.
       hexToBytes rest ! i = 16 * hexValue (rest ! (2 * i)) + hexValue (rest ! (2 * i + 1))"
    by simp_all
  show ?case
  proof (intro conjI allI impI)
    show "length (hexToBytes (a # b # rest)) = length (a # b # rest) div 2"
      using ih(1) by simp
  next
    fix i assume i: "i < length (a # b # rest) div 2"
    show "hexToBytes (a # b # rest) ! i =
        16 * hexValue ((a # b # rest) ! (2 * i)) + hexValue ((a # b # rest) ! (2 * i + 1))"
    proof (cases i)
      case 0
      then show ?thesis using p by simp
    next
      case (Suc j)
      with i have "j < length rest div 2" by simp
      with ih(2) Suc show ?thesis by simp
    qed
  qed
qed

text \<open>
  C7, as the code has it. \<open>hexToBytes\<close> never fails: it has no error result. On a text of
  even length made of hex digits it returns the byte sequence whose i-th byte is the
  value of the i-th pair of digits. (A text of odd length or with other characters is
  decoded leniently instead of being refused.)
\<close>

theorem hexToBytes_even_hex:
  "even (length h) \<Longrightarrow> list_all isHexChar h \<Longrightarrow>
   length (hexToBytes h) = length h div 2 \<and>
   (\<forall>i < length h div 2.
      hexToBytes h ! i = 16 * hexValue (h ! (2 * i)) + hexValue (h ! (2 * i + 1)))"
  by (rule hexToBytes_pairs)

theorem hexToBytes_even_hex_witness:
  "even (length ''3082'') \<and> list_all isHexChar ''3082'' \<and>
   length (hexToBytes ''3082'') = 2 \<and> hexToBytes ''3082'' ! 0 = 48 \<and> hexToBytes ''3082'' ! 1 = 130"
proof -
  have h: "even (length ''3082'')" "list_all isHexChar ''3082''"
    by (simp_all add: isHexChar_def)
  from hexToBytes_even_hex [OF h] have
    "length (hexToBytes ''3082'') = 2"
    "hexToBytes ''3082'' ! 0 = 16 * hexValue CHR ''3'' + hexValue CHR ''0''"
    "hexToBytes ''3082'' ! 1 = 16 * hexValue CHR ''8'' + hexValue CHR ''2''"
    by (simp_all del: hexToBytes.simps)
  with h show ?thesis by (simp add: hexValue_def digitVal_def del: hexToBytes.simps)
qed

text \<open>
  The claim as stated fails: an odd-length text and a text that is not hex are both
  decoded to bytes, no \<open>MalformedHex\<close> is raised.
\<close>

theorem hexToBytes_malformed_counterexample:
  "odd (length ''ABC'') \<and> hexToBytes ''ABC'' = [171, 12] \<and>
   \<not> list_all isHexChar ''zz'' \<and> hexToBytes ''zz'' = [0]"
  by (simp add: parseInt_def isStrWhiteSpace_def digitVal_def mathInt_def fromCharCode_def
      isHexChar_def)

subsection \<open>The signature locator\<close>

lemma matchAll_Nil:
  "matchAll m i [] = (case m [] of None \<Rightarrow> [] | Some (c, rest) \<Rightarrow> [(i, c)])"
  by (subst matchAll.simps) simp

lemma matchAll_None:
  "s \<noteq> [] \<Longrightarrow> m s = None \<Longrightarrow> matchAll m i s = matchAll m (i + 1) (tl s)"
  by (subst matchAll.simps) simp

lemma matchAll_Some:
  "s \<noteq> [] \<Longrightarrow> m s = Some (c, rest) \<Longrightarrow> length rest < length s \<Longrightarrow>
   matchAll m i s = (i, c) # matchAll m (i + (length s - length rest)) rest"
  by (subst matchAll.simps) simp

lemma matchAll_Some_empty:
  "s \<noteq> [] \<Longrightarrow> m s = Some (c, rest) \<Longrightarrow> length s \<le> length rest \<Longrightarrow>
   matchAll m i s = (i, c) # matchAll m (i + 1) (tl s)"
  by (subst matchAll.simps) simp

lemma matchAll_lower: "(j, c) \<in> set (matchAll m i s) \<Longrightarrow> i \<le> j"
proof (induction m i s rule: matchAll.induct)
  case (1 m i s)
  show ?case
  proof (cases "s = []")
    case True
    with "1.prems" show ?thesis by (auto simp: matchAll_Nil split: option.splits)
  next
    case False
    show ?thesis
    proof (cases "m s")
      case None
      with False "1.prems" have "(j, c) \<in> set (matchAll m (i + 1) (tl s))" by (simp add: matchAll_None)
      with "1.IH"(1)[OF False None] show ?thesis by simp
    next
      case (Some a)
      obtain c' rest where a: "a = (c', rest)" by (cases a)
      show ?thesis
      proof (cases "length rest < length s")
        case True
        with False Some a "1.prems"
        have "(j, c) = (i, c') \<or> (j, c) \<in> set (matchAll m (i + (length s - length rest)) rest)"
          by (simp add: matchAll_Some)
        with "1.IH"(2)[OF False Some a[symmetric] True] show ?thesis by auto
      next
        case F: False
        with False Some a "1.prems"
        have "(j, c) = (i, c') \<or> (j, c) \<in> set (matchAll m (i + 1) (tl s))"
          by (simp add: matchAll_Some_empty)
        with "1.IH"(3)[OF False Some a[symmetric] F] show ?thesis by auto
      qed
    qed
  qed
qed


lemma matchAll_sorted: "sorted_wrt (<) (map fst (matchAll m i s))"
proof (induction m i s rule: matchAll.induct)
  case (1 m i s)
  show ?case
  proof (cases "s = []")
    case True
    then show ?thesis by (auto simp: matchAll_Nil split: option.splits)
  next
    case False
    show ?thesis
    proof (cases "m s")
      case None
      with "1.IH"(1)[OF False None] False show ?thesis by (simp add: matchAll_None)
    next
      case (Some a)
      obtain c' rest where a: "a = (c', rest)" by (cases a)
      show ?thesis
      proof (cases "length rest < length s")
        case True
        have "\<forall>y \<in> set (matchAll m (i + (length s - length rest)) rest). i < fst y"
          using matchAll_lower[of _ _ m "i + (length s - length rest)" rest] True by fastforce
        with "1.IH"(2)[OF False Some a[symmetric] True] False Some a True show ?thesis
          by (simp add: matchAll_Some)
      next
        case F: False
        have "\<forall>y \<in> set (matchAll m (i + 1) (tl s)). i < fst y"
          using matchAll_lower[of _ _ m "i + 1" "tl s"] by fastforce
        with "1.IH"(3)[OF False Some a[symmetric] F] False Some a F show ?thesis
          by (simp add: matchAll_Some_empty)
      qed
    qed
  qed
qed

lemma matchAll_matches:
  "\<forall>s c r. m s = Some (c, r) \<longrightarrow> (\<exists>pre. s = pre @ r) \<Longrightarrow>
   (j, c) \<in> set (matchAll m i s) \<Longrightarrow> \<exists>rest. m (drop (j - i) s) = Some (c, rest)"
proof (induction m i s rule: matchAll.induct)
  case (1 m i s)
  note suf = "1.prems"(1)
  note mem = "1.prems"(2)
  show ?case
  proof (cases "s = []")
    case True
    with mem show ?thesis
      by (cases "m []") (auto simp: matchAll_Nil)
  next
    case False
    have tl: "\<And>k. drop k (tl s) = drop (Suc k) s" by (simp add: drop_Suc)
    show ?thesis
    proof (cases "m s")
      case None
      with False mem have in1: "(j, c) \<in> set (matchAll m (i + 1) (tl s))" by (simp add: matchAll_None)
      then have "i + 1 \<le> j" by (rule matchAll_lower)
      then have "Suc (j - (i + 1)) = j - i" by simp
      with "1.IH"(1)[OF False None suf in1] show ?thesis by (simp add: tl)
    next
      case (Some a)
      obtain c' rest where a: "a = (c', rest)" by (cases a)
      show ?thesis
      proof (cases "(j, c) = (i, c')")
        case True
        with Some a show ?thesis by simp
      next
        case ne: False
        show ?thesis
        proof (cases "length rest < length s")
          case True
          have "matchAll m i s = (i, c') # matchAll m (i + (length s - length rest)) rest"
            using False Some a True by (subst matchAll.simps) simp
          with mem ne have in2: "(j, c) \<in> set (matchAll m (i + (length s - length rest)) rest)"
            by auto
          from suf Some a obtain pre where pre: "s = pre @ rest" by blast
          then have d: "\<And>k. drop (length s - length rest + k) s = drop k rest" by simp
          from in2 have "i + (length s - length rest) \<le> j" by (rule matchAll_lower)
          then have "length s - length rest + (j - (i + (length s - length rest))) = j - i"
            by simp
          with "1.IH"(2)[OF False Some a[symmetric] True suf in2] d[of "j - (i + (length s - length rest))"]
          show ?thesis by simp
        next
          case F: False
          have "matchAll m i s = (i, c') # matchAll m (i + 1) (tl s)"
            using False Some a F by (subst matchAll.simps) simp
          with mem ne have in3: "(j, c) \<in> set (matchAll m (i + 1) (tl s))"
            by auto
          then have "i + 1 \<le> j" by (rule matchAll_lower)
          then have "Suc (j - (i + 1)) = j - i" by simp
          with "1.IH"(3)[OF False Some a[symmetric] F suf in3] show ?thesis by (simp add: tl)
        qed
      qed
    qed
  qed
qed


lemma lit_append: "lit p s = Some r \<Longrightarrow> s = p @ r"
  by (auto simp: lit_def split: if_splits) (metis append_take_drop_id)

lemma contentsHex_shape:
  assumes "contentsHex s = Some (h, r)"
  shows "\<exists>ws. s = ''/Contents'' @ ws @ ''<'' @ h @ ''>'' @ r \<and> list_all isStrWhiteSpace ws \<and>
           h \<noteq> [] \<and> list_all isHexChar h"
proof -
  from assms obtain r1 r2 r3 where
    1: "lit ''/Contents'' s = Some r1" and
    2: "lit ''<'' (dropWhile isStrWhiteSpace r1) = Some r2" and
    3: "takeWhile isHexChar r2 \<noteq> []" and
    4: "lit ''>'' (dropWhile isHexChar r2) = Some r3" and
    5: "h = takeWhile isHexChar r2" "r = r3"
    by (auto simp: contentsHex_def split: option.splits if_splits)
  have a: "s = ''/Contents'' @ r1" using 1 by (rule lit_append)
  have b: "r1 = takeWhile isStrWhiteSpace r1 @ ''<'' @ r2"
    using lit_append[OF 2] takeWhile_dropWhile_id[of isStrWhiteSpace r1] by simp
  have c: "r2 = h @ ''>'' @ r"
    using lit_append[OF 4] takeWhile_dropWhile_id[of isHexChar r2] 5 by simp
  have "s = ''/Contents'' @ takeWhile isStrWhiteSpace r1 @ ''<'' @ h @ ''>'' @ r"
    using a b c by simp
  moreover have "list_all isStrWhiteSpace (takeWhile isStrWhiteSpace r1)"
    by (simp add: list_all_iff) (metis set_takeWhileD)
  moreover have "list_all isHexChar h" unfolding 5
    by (simp add: list_all_iff) (metis set_takeWhileD)
  ultimately show ?thesis using 3 5 by blast
qed

lemma contentsHex_suffix: "contentsHex s = Some (h, r) \<Longrightarrow> \<exists>pre. s = pre @ r"
  using contentsHex_shape[of s h r] by (metis append.assoc)

lemma contentsIndirect_not_hex:
  "contentsIndirect s = Some (d, r) \<Longrightarrow> \<not> list_all isHexChar d"
  by (auto simp: contentsIndirect_def isHexChar_def split: option.splits)

lemma patternMatches_pattern: "f \<in> set (patternMatches p doc) \<Longrightarrow> pattern f = fst p"
  by (auto simp: patternMatches_def)

lemma sorted_wrt_all: "(\<And>x y. x \<in> set xs \<Longrightarrow> y \<in> set xs \<Longrightarrow> P x y) \<Longrightarrow> sorted_wrt P xs"
  by (induction xs) auto

lemma blocks_sorted:
  "sorted (map (\<lambda>p. rk (fst p)) ps) \<Longrightarrow>
   sorted_wrt (\<lambda>a b. rk (pattern a) \<le> (rk (pattern b) :: nat))
     (concat (map (\<lambda>p. patternMatches p doc) ps))"
proof (induction ps)
  case Nil
  then show ?case by simp
next
  case (Cons p ps)
  have 1: "sorted_wrt (\<lambda>a b. rk (pattern a) \<le> rk (pattern b)) (patternMatches p doc)"
    by (rule sorted_wrt_all) (simp add: patternMatches_pattern)
  have 2: "sorted_wrt (\<lambda>a b. rk (pattern a) \<le> rk (pattern b))
       (concat (map (\<lambda>p. patternMatches p doc) ps))"
    using Cons by simp
  have 3: "\<forall>x \<in> set (patternMatches p doc).
        \<forall>y \<in> set (concat (map (\<lambda>p. patternMatches p doc) ps)). rk (pattern x) \<le> rk (pattern y)"
    using Cons.prems by (auto simp: patternMatches_pattern)
  show ?case using 1 2 3 by (simp add: sorted_wrt_append)
qed

lemma patternRank_table: "map (\<lambda>p. patternRank (fst p)) patterns = [0, 1, 2, 3, 4, 5, 6]"
  by (simp add: patternRank_def patterns_def)

lemma foundSignatures_sorted:
  "sorted_wrt (\<lambda>a b. patternRank (pattern a) \<le> patternRank (pattern b)) (foundSignatures doc)"
  unfolding foundSignatures_def by (rule blocks_sorted) (simp add: patternRank_table)

lemma indirect_not_candidate:
  assumes "contentsIndirect s = Some x"
  shows "contentsHex s = None"
proof -
  from assms obtain r r1 n1 r2 where
    1: "lit ''/Contents'' s = Some r" and 2: "spaces1 r = Some r1" and 3: "digits1 r1 = Some (n1, r2)"
    by (auto simp: contentsIndirect_def split: option.splits)
  from 2 have r1: "r1 = dropWhile isStrWhiteSpace r" by (auto simp: spaces1_def split: if_splits)
  from 3 have "takeWhile isDecDigit r1 \<noteq> []" by (auto simp: digits1_def split: if_splits)
  then obtain c cs where c: "r1 = c # cs" "isDecDigit c" by (cases r1) (auto split: if_splits)
  then have "c \<noteq> CHR ''<''" by (auto simp: isDecDigit_def)
  with c have "lit ''<'' r1 = None" by (simp add: lit_def)
  with 1 r1 show ?thesis by (simp add: contentsHex_def)
qed

lemma sigMatches_candidates:
  assumes "(i, h) \<in> set (sigMatches doc)"
  shows "h \<noteq> [] \<and> list_all isHexChar h \<and> (\<exists>rest. contentsHex (drop i doc) = Some (h, rest)) \<and>
         contentsIndirect (drop i doc) = None"
proof -
  have "\<forall>s c r. contentsHex s = Some (c, r) \<longrightarrow> (\<exists>pre. s = pre @ r)"
    using contentsHex_suffix by blast
  from matchAll_matches[OF this, of i h 0 doc] assms
  obtain rest where m: "contentsHex (drop i doc) = Some (h, rest)" by (auto simp: sigMatches_def)
  from contentsHex_shape[OF m] have "h \<noteq> []" "list_all isHexChar h" by auto
  moreover have "contentsIndirect (drop i doc) = None"
    using indirect_not_candidate[of "drop i doc"] m by (cases "contentsIndirect (drop i doc)") auto
  ultimately show ?thesis using m by blast
qed

text \<open>
  C3, as the code has it. The analyzer lists its candidates pattern by pattern in the
  order of its table: generic \<open>/Contents\<close> hex blobs first, then indirect
  \<open>/Contents N M R\<close> references, \<open>/ByteRange\<close> blocks, \<open>/Sig\<close> dictionaries, the
  PKCS#7 detached and sha1 markers, and the Aadhaar (ETSI.CAdES) marker last. The
  extraction pipeline uses the generic \<open>/Contents\<close> hex pattern only, in document
  order; each of its candidates is a non-empty hex text captured at its offset, and no
  position that holds an indirect reference is a candidate, so indirect references are
  listed by the analyzer and never decoded.
\<close>

theorem locator_order:
  "sorted_wrt (\<lambda>a b. patternRank (pattern a) \<le> patternRank (pattern b)) (foundSignatures doc) \<and>
   map (\<lambda>p. patternRank (fst p)) patterns = [0, 1, 2, 3, 4, 5, 6] \<and>
   sorted_wrt (<) (map fst (sigMatches doc)) \<and>
   (\<forall>(i, h) \<in> set (sigMatches doc).
      h \<noteq> [] \<and> list_all isHexChar h \<and> (\<exists>rest. contentsHex (drop i doc) = Some (h, rest)) \<and>
      contentsIndirect (drop i doc) = None)"
  using foundSignatures_sorted patternRank_table matchAll_sorted[of contentsHex 0 doc]
    sigMatches_candidates[of _ _ doc]
  by (auto simp: sigMatches_def)

lemmas locator_eval = lit_def spaces1_def digits1_def contentsHex_def contentsIndirect_def
  gapThen_def byteRangeContents_def markedContents_def sigMatches_def patterns_def
  patternMatches_def foundSignatures_def isStrWhiteSpace_def isHexChar_def isDecDigit_def
  matchAll.simps

theorem locator_order_witness:
  "foundSignatures ''%PDF-/Contents 7 0 R /Type/Sig/Contents<3082>'' =
     [\<lparr>pattern = ''Standard /Contents hex'', sigData = ''3082'', position = 30\<rparr>,
      \<lparr>pattern = ''Indirect /Contents reference'', sigData = ''7 0 R'', position = 5\<rparr>,
      \<lparr>pattern = ''/Sig dictionary'', sigData = ''3082'', position = 21\<rparr>] \<and>
   sigMatches ''%PDF-/Contents 7 0 R /Type/Sig/Contents<3082>'' = [(30, ''3082'')]"
  using locator_order [of "''%PDF-/Contents 7 0 R /Type/Sig/Contents<3082>''"]
  by (simp add: locator_eval)

text \<open>
  The claim as stated fails. In a document whose only signature carries the Aadhaar
  marker the analyzer lists the generic match before the Aadhaar one; and the pipeline
  takes a generic blob that stands earlier in the document before the blob that the
  Aadhaar marker introduces.
\<close>

theorem locator_order_counterexample:
  "map pattern (foundSignatures ''/SubFilter/ETSI.CAdES.detached/Contents<AB>'') =
     [''Standard /Contents hex'', ''Aadhaar eSign''] \<and>
   sigMatches ''/Contents<AA>/SubFilter/ETSI.CAdES.detached/Contents<BB>'' = [(0, ''AA''), (43, ''BB'')] \<and>
   markedContents ''/SubFilter'' ''/ETSI.CAdES.detached'' ''/Contents<AA>/SubFilter/ETSI.CAdES.detached/Contents<BB>'' = None \<and>
   markedContents ''/SubFilter'' ''/ETSI.CAdES.detached'' (drop 13 ''/Contents<AA>/SubFilter/ETSI.CAdES.detached/Contents<BB>'') = Some (''BB'', [])"
  by (simp add: locator_eval)

subsection \<open>The stand-in library\<close>

lemma strictForge_sel:
  "fromDer strictForge = derParse"
  "toDer strictForge = (\<lambda>a. Inr (derEncode a))"
  "bytesToHex strictForge = hexText"
  "utcTimeToDate strictForge = utcTime"
  "generalizedTimeToDate strictForge = generalizedTime"
  "derToOid strictForge = oidText"
  "decodeUtf8 strictForge = (\<lambda>xs. Inl typeError)"
  "certificateFromAsn1 strictForge =
     (\<lambda>a. Inl ''Cannot read X.509 certificate. ASN.1 object is not an X509v3 Certificate.'')"
  "certificateFromPem strictForge = (\<lambda>s. Inl ''Invalid PEM formatted message.'')"
  "certificateToAsn1 strictForge = (\<lambda>c. Inl typeError)"
  "messageFromAsn1 strictForge =
     (\<lambda>a. Inl ''Cannot read PKCS#7 message. ASN.1 object is not an PKCS#7 ContentInfo.'')"
  by (simp_all add: strictForge_def)

lemmas der_eval = derParse_def derValue.simps derValues.simps derLength_def strictForge_sel

lemmas js_eval = parseInt_def isStrWhiteSpace_def digitVal_def mathInt_def fromCharCode_def

lemmas parser_eval = parseCertificateFromBuffer_def extractFromAsn1_def rethrow_def valAt_def
  valLength_def elementValue_def tbsField_def extractAsn1Attributes_def addRdn_def
  attributeValue_def buildDetails_def orNA_def orElse_def truthy_def beginCertificate_def
  INTEGER_def SEQUENCE_def SET_def typeError_def NA_def getGenderInfo_def getBirthYear_def
  getPinCode_def

subsection \<open>The certificate attribute extractor\<close>

lemma tbsField_names:
  assumes "tbsField F st field = Inr st'"
  shows "\<not> isNameField field \<Longrightarrow> subjectAsn1 st' = subjectAsn1 st \<and> issuerAsn1 st' = issuerAsn1 st"
    and "isNameField field \<Longrightarrow> issuerAsn1 st = None \<Longrightarrow>
           subjectAsn1 st' = subjectAsn1 st \<and> issuerAsn1 st' = Some field"
  using assms
  by (auto simp: tbsField_def isNameField_def Let_def split: sum.splits if_splits)

lemma tbsFields_no_names:
  "\<forall>f \<in> set flds. \<not> isNameField f \<Longrightarrow> tbsFields F st flds = Inr st' \<Longrightarrow>
   subjectAsn1 st' = subjectAsn1 st \<and> issuerAsn1 st' = issuerAsn1 st"
proof (induction flds arbitrary: st)
  case Nil
  then show ?case by simp
next
  case (Cons f flds)
  from Cons.prems(2) obtain st1 where 1: "tbsField F st f = Inr st1" "tbsFields F st1 flds = Inr st'"
    by (auto split: sum.splits)
  from Cons.prems(1) have nf: "\<not> isNameField f" by simp
  from tbsField_names(1)[OF 1(1) nf] Cons.IH[OF _ 1(2)] Cons.prems(1) show ?case by simp
qed

lemma tbsFields_one_name:
  "length (filter isNameField flds) \<le> 1 \<Longrightarrow> issuerAsn1 st = None \<Longrightarrow> subjectAsn1 st = None \<Longrightarrow>
   tbsFields F st flds = Inr st' \<Longrightarrow> subjectAsn1 st' = None"
proof (induction flds arbitrary: st)
  case Nil
  then show ?case by simp
next
  case (Cons f flds)
  from Cons.prems(4) obtain st1 where 1: "tbsField F st f = Inr st1" "tbsFields F st1 flds = Inr st'"
    by (auto split: sum.splits)
  show ?case
  proof (cases "isNameField f")
    case True
    with Cons.prems(1) have "filter isNameField flds = []" by simp
    then have none: "\<forall>f \<in> set flds. \<not> isNameField f" by (simp add: filter_empty_conv)
    from tbsField_names(2)[OF 1(1) True Cons.prems(2)] Cons.prems(3)
    have "subjectAsn1 st1 = None" by simp
    with tbsFields_no_names[OF none 1(2)] show ?thesis by simp
  next
    case False
    with Cons.prems(1) have le: "length (filter isNameField flds) \<le> 1" by simp
    from tbsField_names(1)[OF 1(1) False] Cons.prems(2,3)
    have "issuerAsn1 st1 = None" "subjectAsn1 st1 = None" by simp_all
    from Cons.IH[OF le this 1(2)] show ?thesis .
  qed
qed

lemma tbsFields_returns:
  "\<forall>f \<in> set flds. asn1Type f = INTEGER \<longrightarrow> (\<exists>h. bytesToHex F (asn1Value f) = Inr h) \<Longrightarrow>
   \<exists>st'. tbsFields F st flds = Inr st'"
proof (induction flds arbitrary: st)
  case Nil
  then show ?case by simp
next
  case (Cons f flds)
  have "\<exists>st1. tbsField F st f = Inr st1"
    using Cons.prems by (auto simp: tbsField_def Let_def split: sum.splits)
  then obtain st1 where "tbsField F st f = Inr st1" ..
  with Cons.IH[of st1] Cons.prems show ?case by simp
qed

lemma buildDetails_fields:
  "serialNumber (buildDetails st sa ia) = orNA (serial st)"
  "endDate (buildDetails st sa ia) = (case validity st of None \<Rightarrow> Number 0 | Some t \<Rightarrow> t)"
  "signerName (buildDetails st sa ia) = orNA (orElse (sa ''2.5.4.3'') (sa ''CN''))"
  "tpin (buildDetails st sa ia) = orNA (orElse (sa ''2.5.4.12'') (sa ''T''))"
  "state (buildDetails st sa ia) = orNA (orElse (sa ''2.5.4.8'') (sa ''ST''))"
  "gender (buildDetails st sa ia) =
     (if truthy (orElse (sa ''2.5.4.46'') (sa ''dnQualifier''))
      then getGenderInfo (orElse (sa ''2.5.4.46'') (sa ''dnQualifier'')) else NA)"
  "yob (buildDetails st sa ia) =
     (if truthy (orElse (sa ''2.5.4.46'') (sa ''dnQualifier''))
      then getBirthYear (orElse (sa ''2.5.4.46'') (sa ''dnQualifier'')) else NA)"
  "pincode (buildDetails st sa ia) =
     (if truthy (orElse (sa ''2.5.4.17'') (sa ''postalCode''))
      then getPinCode (orElse (sa ''2.5.4.17'') (sa ''postalCode'')) else NA)"
  "issuerName (buildDetails st sa ia) = orNA (orElse (ia ''2.5.4.3'') (ia ''CN''))"
  "issuerOrganisation (buildDetails st sa ia) = orNA (orElse (ia ''2.5.4.10'') (ia ''O''))"
  by (simp_all add: buildDetails_def Let_def)

lemma buildDetails_no_subject:
  "signerName (buildDetails st Map.empty ia) = NA \<and> tpin (buildDetails st Map.empty ia) = NA \<and>
   state (buildDetails st Map.empty ia) = NA \<and> gender (buildDetails st Map.empty ia) = NA \<and>
   yob (buildDetails st Map.empty ia) = NA \<and> pincode (buildDetails st Map.empty ia) = NA"
  by (simp add: buildDetails_fields orNA_def orElse_def truthy_def)

lemma buildDetails_no_issuer:
  "issuerName (buildDetails st sa Map.empty) = NA \<and>
   issuerOrganisation (buildDetails st sa Map.empty) = NA"
  by (simp add: buildDetails_fields orNA_def orElse_def truthy_def)

lemma extractFromAsn1_Inr:
  "extractFromAsn1 F cert = Inr d \<longleftrightarrow>
   (\<exists>tbs st sa ia. valAt (asn1Value cert) 0 = Node tbs \<and>
      tbsFields F tbsInit (tbsFieldList tbs) = Inr st \<and>
      extractAsn1Attributes F (subjectAsn1 st) = Inr sa \<and>
      extractAsn1Attributes F (issuerAsn1 st) = Inr ia \<and> d = buildDetails st sa ia)"
  by (auto simp: extractFromAsn1_def rethrow_def tbsFieldList_def tbsInit_def
      split: element.splits sum.splits)

text \<open>
  C4, as the code has it. A TBSCertificate without a pair of SEQUENCE-of-SET structures
  does not make the attribute extractor fail. With fewer than two such structures there
  is no subject, and every field read from the subject (\<open>signerName\<close>, \<open>tpin\<close>,
  \<open>state\<close>, \<open>gender\<close>, \<open>yob\<close>, \<open>pincode\<close>) of a returned record is \<open>NA\<close>; with none
  there is no issuer either, the issuer fields are \<open>NA\<close> too, and a record is returned
  whenever the library decodes the INTEGER fields.
\<close>

theorem no_name_pair_gives_NA:
  "valAt (asn1Value cert) 0 = Node tbs \<Longrightarrow>
   (length (filter isNameField (tbsFieldList tbs)) \<le> 1 \<longrightarrow> extractFromAsn1 F cert = Inr d \<longrightarrow>
      signerName d = NA \<and> tpin d = NA \<and> state d = NA \<and> gender d = NA \<and> yob d = NA \<and>
      pincode d = NA) \<and>
   (filter isNameField (tbsFieldList tbs) = [] \<longrightarrow>
    (\<forall>f \<in> set (tbsFieldList tbs).
        asn1Type f = INTEGER \<longrightarrow> (\<exists>h. bytesToHex F (asn1Value f) = Inr h)) \<longrightarrow>
      (\<exists>d'. extractFromAsn1 F cert = Inr d' \<and>
           signerName d' = NA \<and> tpin d' = NA \<and> state d' = NA \<and> gender d' = NA \<and>
           yob d' = NA \<and> pincode d' = NA \<and> issuerName d' = NA \<and> issuerOrganisation d' = NA))"
proof (intro conjI impI)
  assume cert: "valAt (asn1Value cert) 0 = Node tbs"
    and le: "length (filter isNameField (tbsFieldList tbs)) \<le> 1"
    and r: "extractFromAsn1 F cert = Inr d"
  from r cert obtain st sa ia where
    st: "tbsFields F tbsInit (tbsFieldList tbs) = Inr st" and
    sa: "extractAsn1Attributes F (subjectAsn1 st) = Inr sa" and
    d: "d = buildDetails st sa ia"
    by (auto simp: extractFromAsn1_Inr)
  have "subjectAsn1 st = None"
    using tbsFields_one_name[OF le _ _ st] by (simp add: tbsInit_def)
  with sa have "sa = Map.empty" by (simp add: extractAsn1Attributes_def)
  with d show "signerName d = NA" "tpin d = NA" "state d = NA" "gender d = NA" "yob d = NA"
    "pincode d = NA"
    using buildDetails_no_subject by simp_all
next
  assume cert: "valAt (asn1Value cert) 0 = Node tbs"
    and none: "filter isNameField (tbsFieldList tbs) = []"
    and hex: "\<forall>f \<in> set (tbsFieldList tbs).
        asn1Type f = INTEGER \<longrightarrow> (\<exists>h. bytesToHex F (asn1Value f) = Inr h)"
  from tbsFields_returns[OF hex] obtain st where
    st: "tbsFields F tbsInit (tbsFieldList tbs) = Inr st" by blast
  from none have "\<forall>f \<in> set (tbsFieldList tbs). \<not> isNameField f" by (simp add: filter_empty_conv)
  from tbsFields_no_names[OF this st] have n: "subjectAsn1 st = None" "issuerAsn1 st = None"
    by (simp_all add: tbsInit_def)
  then have "extractFromAsn1 F cert = Inr (buildDetails st Map.empty Map.empty)"
    using cert st by (simp add: extractFromAsn1_Inr extractAsn1Attributes_def)
  then show "\<exists>d'. extractFromAsn1 F cert = Inr d' \<and>
           signerName d' = NA \<and> tpin d' = NA \<and> state d' = NA \<and> gender d' = NA \<and>
           yob d' = NA \<and> pincode d' = NA \<and> issuerName d' = NA \<and> issuerOrganisation d' = NA"
    using buildDetails_no_subject buildDetails_no_issuer by blast
qed

lemmas tree_eval = valAt_def valLength_def elementValue_def isNameField_def tbsFieldList_def
  INTEGER_def SEQUENCE_def SET_def

lemma oneNameCertificate_details:
  "extractFromAsn1 strictForge oneNameCertificate =
     Inr \<lparr>serialNumber = ''05'', endDate = Number 0, signerName = NA, tpin = NA, state = NA,
          gender = NA, yob = NA, pincode = NA, issuerName = ''CA'', issuerOrganisation = NA\<rparr>"
  by (simp add: oneNameCertificate_def oneNameTbs_def parser_eval strictForge_sel hexText_def
      hexDigit_def oidText_def showNat.simps nameMap_def bytesText_def char_of_def bit_Suc_0_iff)

theorem no_name_pair_gives_NA_witness:
  "length (filter isNameField (tbsFieldList oneNameTbs)) = 1 \<and>
   extractFromAsn1 strictForge oneNameCertificate =
     Inr \<lparr>serialNumber = ''05'', endDate = Number 0, signerName = NA, tpin = NA, state = NA,
          gender = NA, yob = NA, pincode = NA, issuerName = ''CA'', issuerOrganisation = NA\<rparr> \<and>
   (\<exists>d. extractFromAsn1 strictForge emptyTbsCertificate = Inr d \<and>
        signerName d = NA \<and> tpin d = NA \<and> state d = NA \<and> gender d = NA \<and>
        yob d = NA \<and> pincode d = NA \<and> issuerName d = NA \<and> issuerOrganisation d = NA)"
proof -
  have e: "valAt (asn1Value emptyTbsCertificate) 0 = Node (Asn1 0 16 True (Nodes []))"
    by (simp add: emptyTbsCertificate_def valAt_def)
  have o: "valAt (asn1Value oneNameCertificate) 0 = Node oneNameTbs"
    by (simp add: oneNameCertificate_def valAt_def)
  have l: "length (filter isNameField (tbsFieldList oneNameTbs)) = 1"
    by (simp add: oneNameTbs_def tree_eval)
  have "\<exists>d. extractFromAsn1 strictForge emptyTbsCertificate = Inr d \<and>
        signerName d = NA \<and> tpin d = NA \<and> state d = NA \<and> gender d = NA \<and>
        yob d = NA \<and> pincode d = NA \<and> issuerName d = NA \<and> issuerOrganisation d = NA"
    using no_name_pair_gives_NA[OF e, of strictForge] by (simp add: tbsFieldList_def)
  moreover have "signerName \<lparr>serialNumber = ''05'', endDate = Number 0, signerName = NA, tpin = NA,
          state = NA, gender = NA, yob = NA, pincode = NA, issuerName = ''CA'',
          issuerOrganisation = NA\<rparr> = NA"
    using no_name_pair_gives_NA[OF o, of strictForge] l oneNameCertificate_details by simp
  ultimately show ?thesis using l oneNameCertificate_details by simp
qed

text \<open>
  The claim as stated fails: for a certificate whose TBSCertificate has no field at all,
  hence no Subject/Issuer pair, the extractor returns a record instead of failing.
\<close>

theorem no_name_pair_counterexample:
  "filter isNameField (tbsFieldList (Asn1 0 16 True (Nodes []))) = [] \<and>
   valAt (asn1Value emptyTbsCertificate) 0 = Node (Asn1 0 16 True (Nodes [])) \<and>
   extractFromAsn1 strictForge emptyTbsCertificate =
     Inr \<lparr>serialNumber = NA, endDate = Number 0, signerName = NA, tpin = NA, state = NA,
          gender = NA, yob = NA, pincode = NA, issuerName = NA, issuerOrganisation = NA\<rparr>"
  by (simp add: emptyTbsCertificate_def parser_eval tbsFieldList_def)

subsection \<open>The fields of a record\<close>

lemma decoders_None: "getPinCode None = NA" "getBirthYear None = NA" "getGenderInfo None = NA"
  by (simp_all add: getPinCode_def getBirthYear_def getGenderInfo_def)

lemma getPinCode_cases: "getPinCode (Some s) = s \<or> getPinCode (Some s) = NA"
  by (simp add: getPinCode_def)

lemma getBirthYear_cases:
  "getBirthYear (Some s) = NA \<or> (4 \<le> length s \<and> getBirthYear (Some s) = take 4 s)"
  by (auto simp: getBirthYear_def Let_def split: option.splits)

lemma getGenderInfo_cases:
  "getGenderInfo (Some s) = NA \<or> (5 \<le> length s \<and> getGenderInfo (Some s) = [toUpperCase (s ! 4)])"
  by (auto simp: getGenderInfo_def Let_def)

lemma orNA_ran: "orNA (m k) = NA \<or> orNA (m k) \<in> ran m"
  by (auto simp: orNA_def ran_def split: option.splits)

lemma orNA_orElse_ran: "orNA (orElse (m k) (m k')) = NA \<or> orNA (orElse (m k) (m k')) \<in> ran m"
  by (auto simp: orNA_def orElse_def truthy_def ran_def split: option.splits)

lemma truthy_orElse_ran:
  "truthy (orElse (m k) (m k')) \<Longrightarrow> \<exists>s \<in> ran m. orElse (m k) (m k') = Some s"
  by (auto simp: orElse_def truthy_def ran_def split: option.splits if_splits)

lemma orElse_cases:
  "orElse (m k) (m k') = None \<or> (\<exists>s \<in> ran m. orElse (m k) (m k') = Some s)"
  by (cases "m k"; cases "m k'") (auto simp: orElse_def truthy_def ran_def)

lemma decoded_from_ran:
  assumes "q = None \<or> (\<exists>s \<in> ran m. q = Some s)"
  shows "getGenderInfo q = NA \<or> (\<exists>s \<in> ran m. 5 \<le> length s \<and> getGenderInfo q = [toUpperCase (s ! 4)])"
    and "getBirthYear q = NA \<or> (\<exists>s \<in> ran m. 4 \<le> length s \<and> getBirthYear q = take 4 s)"
    and "getPinCode q \<in> insert NA (ran m)"
proof -
  show "getGenderInfo q = NA \<or> (\<exists>s \<in> ran m. 5 \<le> length s \<and> getGenderInfo q = [toUpperCase (s ! 4)])"
  proof (cases q)
    case None
    then show ?thesis by (simp add: decoders_None)
  next
    case (Some s)
    with assms have "s \<in> ran m" by auto
    with getGenderInfo_cases[of s] Some show ?thesis by blast
  qed
  show "getBirthYear q = NA \<or> (\<exists>s \<in> ran m. 4 \<le> length s \<and> getBirthYear q = take 4 s)"
  proof (cases q)
    case None
    then show ?thesis by (simp add: decoders_None)
  next
    case (Some s)
    with assms have "s \<in> ran m" by auto
    with getBirthYear_cases[of s] Some show ?thesis by blast
  qed
  show "getPinCode q \<in> insert NA (ran m)"
  proof (cases q)
    case None
    then show ?thesis by (simp add: decoders_None)
  next
    case (Some s)
    with assms have "s \<in> ran m" by auto
    with getPinCode_cases[of s] Some show ?thesis by auto
  qed
qed

lemma textFields_buildDetails: "textFieldsFrom sa ia (buildDetails st sa ia)"
proof -
  let ?q = "orElse (sa ''2.5.4.46'') (sa ''dnQualifier'')"
  let ?p = "orElse (sa ''2.5.4.17'') (sa ''postalCode'')"
  note q = decoded_from_ran[OF orElse_cases[of sa "''2.5.4.46''" "''dnQualifier''"]]
  note p = decoded_from_ran[OF orElse_cases[of sa "''2.5.4.17''" "''postalCode''"]]
  show ?thesis
    unfolding textFieldsFrom_def using q(1,2) p(3)
    by (simp add: buildDetails_fields orNA_orElse_ran)
qed

lemma extractAadhaarSignDetails_fields:
  "serialNumber (extractAadhaarSignDetails cert) = certSerialNumber cert"
  "endDate (extractAadhaarSignDetails cert) = notAfter cert"
  "signerName (extractAadhaarSignDetails cert) = orNA (getAttributes (subject cert) ''CN'')"
  "tpin (extractAadhaarSignDetails cert) = orNA (getAttributes (subject cert) ''T'')"
  "state (extractAadhaarSignDetails cert) = orNA (getAttributes (subject cert) ''ST'')"
  "gender (extractAadhaarSignDetails cert) =
     getGenderInfo (orElse (getAttributes (subject cert) ''dnQualifier'')
                           (getAttributes (subject cert) ''2.5.4.46''))"
  "yob (extractAadhaarSignDetails cert) =
     getBirthYear (orElse (getAttributes (subject cert) ''dnQualifier'')
                          (getAttributes (subject cert) ''2.5.4.46''))"
  "pincode (extractAadhaarSignDetails cert) =
     getPinCode (orElse (getAttributes (subject cert) ''postalCode'')
                        (getAttributes (subject cert) ''2.5.4.17''))"
  "issuerName (extractAadhaarSignDetails cert) = orNA (getAttributes (issuer cert) ''CN'')"
  "issuerOrganisation (extractAadhaarSignDetails cert) = orNA (getAttributes (issuer cert) ''O'')"
  by (simp_all add: extractAadhaarSignDetails_def Let_def)

lemma textFields_object:
  "textFieldsFrom (getAttributes (subject cert)) (getAttributes (issuer cert))
     (extractAadhaarSignDetails cert)"
proof -
  let ?sa = "getAttributes (subject cert)"
  note q = decoded_from_ran[OF orElse_cases[of ?sa "''dnQualifier''" "''2.5.4.46''"]]
  note p = decoded_from_ran[OF orElse_cases[of ?sa "''postalCode''" "''2.5.4.17''"]]
  show ?thesis
    unfolding textFieldsFrom_def using q(1,2) p(3)
    by (simp add: extractAadhaarSignDetails_fields orNA_ran)
qed


lemma tbsField_serial:
  "tbsField F st f = Inr st' \<Longrightarrow> serial st' = Some h \<Longrightarrow>
   serial st = Some h \<or> (asn1Type f = INTEGER \<and> bytesToHex F (asn1Value f) = Inr h)"
  by (auto simp: tbsField_def Let_def split: sum.splits if_splits)

lemma tbsField_validity:
  "tbsField F st f = Inr st' \<Longrightarrow> validity st' = Some t \<Longrightarrow>
   validity st = Some t \<or>
   (asn1Type f = SEQUENCE \<and> valLength (asn1Value f) = 2 \<and>
     (utcTimeToDate F (elementValue (valAt (asn1Value f) 1)) = Inr t \<or>
      generalizedTimeToDate F (elementValue (valAt (asn1Value f) 1)) = Inr t))"
  by (auto simp: tbsField_def Let_def split: sum.splits if_splits)

lemma tbsFields_serial:
  "tbsFields F st flds = Inr st' \<Longrightarrow> serial st' = Some h \<Longrightarrow>
   serial st = Some h \<or> serialFrom F flds h"
proof (induction flds arbitrary: st)
  case Nil
  then show ?case by simp
next
  case (Cons f flds)
  from Cons.prems(1) obtain st1 where 1: "tbsField F st f = Inr st1" "tbsFields F st1 flds = Inr st'"
    by (auto split: sum.splits)
  from Cons.IH[OF 1(2) Cons.prems(2)] tbsField_serial[OF 1(1)] show ?case
    by (auto simp: serialFrom_def)
qed

lemma tbsFields_validity:
  "tbsFields F st flds = Inr st' \<Longrightarrow> validity st' = Some t \<Longrightarrow>
   validity st = Some t \<or> expiryFrom F flds t"
proof (induction flds arbitrary: st)
  case Nil
  then show ?case by simp
next
  case (Cons f flds)
  from Cons.prems(1) obtain st1 where 1: "tbsField F st f = Inr st1" "tbsFields F st1 flds = Inr st'"
    by (auto split: sum.splits)
  from Cons.IH[OF 1(2) Cons.prems(2)] tbsField_validity[OF 1(1)] show ?case
    by (auto simp: expiryFrom_def)
qed

lemma extractFromAsn1_fields:
  assumes "extractFromAsn1 F cert = Inr d"
  shows "\<exists>tbs st sa ia. valAt (asn1Value cert) 0 = Node tbs \<and>
      tbsFields F tbsInit (tbsFieldList tbs) = Inr st \<and>
      extractAsn1Attributes F (subjectAsn1 st) = Inr sa \<and>
      extractAsn1Attributes F (issuerAsn1 st) = Inr ia \<and>
      (serialNumber d = NA \<or> serialFrom F (tbsFieldList tbs) (serialNumber d)) \<and>
      (endDate d = Number 0 \<or> expiryFrom F (tbsFieldList tbs) (endDate d)) \<and>
      textFieldsFrom sa ia d"
proof -
  from assms obtain tbs st sa ia where
    1: "valAt (asn1Value cert) 0 = Node tbs" and
    2: "tbsFields F tbsInit (tbsFieldList tbs) = Inr st" and
    3: "extractAsn1Attributes F (subjectAsn1 st) = Inr sa" and
    4: "extractAsn1Attributes F (issuerAsn1 st) = Inr ia" and
    d: "d = buildDetails st sa ia"
    by (auto simp: extractFromAsn1_Inr)
  have s: "serialNumber d = NA \<or> serialFrom F (tbsFieldList tbs) (serialNumber d)"
  proof (cases "serial st")
    case None
    then show ?thesis by (simp add: d buildDetails_fields orNA_def)
  next
    case (Some h)
    with tbsFields_serial[OF 2 Some] have "serialFrom F (tbsFieldList tbs) h"
      by (simp add: tbsInit_def)
    with Some show ?thesis by (simp add: d buildDetails_fields orNA_def)
  qed
  have e: "endDate d = Number 0 \<or> expiryFrom F (tbsFieldList tbs) (endDate d)"
  proof (cases "validity st")
    case None
    then show ?thesis by (simp add: d buildDetails_fields)
  next
    case (Some t)
    with tbsFields_validity[OF 2 Some] have "expiryFrom F (tbsFieldList tbs) t"
      by (simp add: tbsInit_def)
    with Some show ?thesis by (simp add: d buildDetails_fields)
  qed
  from 1 2 3 4 s e textFields_buildDetails[of sa ia st] d show ?thesis by blast
qed

text \<open>A record comes from the certificate object the library builds, or from the
  ASN.1 of the buffer.\<close>

lemma parseCertificateFromBuffer_Inr:
  assumes "parseCertificateFromBuffer F buf = Inr d"
  shows "(\<exists>cert. (certificateFromPem F buf = Inr cert \<or>
                  (\<exists>a. fromDer F buf = Inr a \<and> certificateFromAsn1 F a = Inr cert)) \<and>
               d = extractAadhaarSignDetails cert) \<or>
         (\<exists>a. fromDer F buf = Inr a \<and> extractFromAsn1 F a = Inr d)"
  using assms
  by (auto simp: parseCertificateFromBuffer_def rethrow_def split: sum.splits if_splits)

text \<open>
  Where the fields of a record come from. Every record the certificate entry point
  returns comes from the certificate object the library builds or, when the library
  refuses the certificate, from the ASN.1 of the buffer. In both cases each text field is
  a value decoded from the subject's or the issuer's attributes, or \<open>NA\<close>. From the
  certificate object the serial number and the expiry are the object's. From the ASN.1
  the serial number is the hex of an INTEGER field or \<open>NA\<close>, and the expiry is the
  number 0 or what the library makes of the second element of a two-element SEQUENCE
  field, which need not be the validity.
\<close>

lemma record_fields_origin:
  "parseCertificateFromBuffer F buf = Inr d \<Longrightarrow>
   (\<exists>cert. (certificateFromPem F buf = Inr cert \<or>
            (\<exists>a. fromDer F buf = Inr a \<and> certificateFromAsn1 F a = Inr cert)) \<and>
         serialNumber d = certSerialNumber cert \<and> endDate d = notAfter cert \<and>
         textFieldsFrom (getAttributes (subject cert)) (getAttributes (issuer cert)) d) \<or>
   (\<exists>a tbs st sa ia. fromDer F buf = Inr a \<and> valAt (asn1Value a) 0 = Node tbs \<and>
         tbsFields F tbsInit (tbsFieldList tbs) = Inr st \<and>
         extractAsn1Attributes F (subjectAsn1 st) = Inr sa \<and>
         extractAsn1Attributes F (issuerAsn1 st) = Inr ia \<and>
         (serialNumber d = NA \<or> serialFrom F (tbsFieldList tbs) (serialNumber d)) \<and>
         (endDate d = Number 0 \<or> expiryFrom F (tbsFieldList tbs) (endDate d)) \<and>
         textFieldsFrom sa ia d)"
proof -
  assume "parseCertificateFromBuffer F buf = Inr d"
  from parseCertificateFromBuffer_Inr[OF this] show ?thesis
  proof
    assume "\<exists>cert. (certificateFromPem F buf = Inr cert \<or>
                  (\<exists>a. fromDer F buf = Inr a \<and> certificateFromAsn1 F a = Inr cert)) \<and>
               d = extractAadhaarSignDetails cert"
    then obtain cert where c: "certificateFromPem F buf = Inr cert \<or>
                  (\<exists>a. fromDer F buf = Inr a \<and> certificateFromAsn1 F a = Inr cert)"
      and d: "d = extractAadhaarSignDetails cert" by blast
    from c d textFields_object[of cert] show ?thesis
      by (intro disjI1 exI[of _ cert]) (simp add: extractAadhaarSignDetails_fields)
  next
    assume "\<exists>a. fromDer F buf = Inr a \<and> extractFromAsn1 F a = Inr d"
    then obtain a where a: "fromDer F buf = Inr a" "extractFromAsn1 F a = Inr d" by blast
    from extractFromAsn1_fields[OF a(2)] a(1) show ?thesis by blast
  qed
qed


lemma sampleCertificate_der:
  "derParse (derEncode sampleCertificate) = Inr sampleCertificate"
  by (simp add: sampleCertificate_def sampleTbs_def rdn_def derLengthBytes_def base256.simps
      derParse_def derValue.simps derValues.simps derLength_def)

lemma sampleCertificate_not_pem:
  "\<not> includesPart (derEncode sampleCertificate) beginCertificate"
  by (simp add: sampleCertificate_def sampleTbs_def rdn_def derLengthBytes_def base256.simps
      beginCertificate_def)

lemma sampleCertificate_details:
  "extractFromAsn1 strictForge sampleCertificate =
     Inr \<lparr>serialNumber = ''05a1'', endDate = Number 1767225599000, signerName = ''RAM'',
          tpin = ''ABCD1234'', state = ''KA'', gender = ''F'', yob = ''1990'',
          pincode = ''560001'', issuerName = ''CA'', issuerOrganisation = ''ORG''\<rparr>"
  by (simp add: sampleCertificate_def sampleTbs_def rdn_def parser_eval strictForge_sel
      hexText_def hexDigit_def oidText_def showNat.simps nameMap_def bytesText_def char_of_def
      bit_Suc_0_iff utcTime_def generalizedTime_def timeOf_def twoDigits_def utcMillis_def js_eval
      toUpperCase_def)


lemma sampleCertificate_parsed:
  "parseCertificateFromBuffer strictForge (derEncode sampleCertificate) =
     Inr \<lparr>serialNumber = ''05a1'', endDate = Number 1767225599000, signerName = ''RAM'',
          tpin = ''ABCD1234'', state = ''KA'', gender = ''F'', yob = ''1990'',
          pincode = ''560001'', issuerName = ''CA'', issuerOrganisation = ''ORG''\<rparr>"
  by (simp add: parseCertificateFromBuffer_def sampleCertificate_not_pem strictForge_sel
      sampleCertificate_der sampleCertificate_details rethrow_def)

lemma rsaSignedCertificate_der:
  "derParse (derEncode rsaSignedCertificate) = Inr rsaSignedCertificate"
  by (simp add: rsaSignedCertificate_def rsaSignedTbs_def rsaAlgorithm_def rdn_def
      derLengthBytes_def base256.simps derParse_def derValue.simps derValues.simps derLength_def)

lemma rsaSignedCertificate_not_pem:
  "\<not> includesPart (derEncode rsaSignedCertificate) beginCertificate"
  by (simp add: rsaSignedCertificate_def rsaSignedTbs_def rsaAlgorithm_def rdn_def
      derLengthBytes_def base256.simps beginCertificate_def)

lemma rsaSignedCertificate_details:
  "extractFromAsn1 strictForge rsaSignedCertificate =
     Inr \<lparr>serialNumber = ''05a1'', endDate = NaN, signerName = ''RAM'',
          tpin = ''ABCD1234'', state = ''KA'', gender = ''F'', yob = ''1990'',
          pincode = ''560001'', issuerName = ''CA'', issuerOrganisation = ''ORG''\<rparr>"
  by (simp add: rsaSignedCertificate_def rsaSignedTbs_def rsaAlgorithm_def rdn_def parser_eval
      strictForge_sel hexText_def hexDigit_def oidText_def showNat.simps nameMap_def
      bytesText_def char_of_def bit_Suc_0_iff utcTime_def generalizedTime_def timeOf_def
      twoDigits_def utcMillis_def js_eval toUpperCase_def)

text \<open>
  C8: the code at an input where it departs from the claim. The loop of
  \<open>extractFromAsn1\<close> takes the first SEQUENCE of two elements among the fields of the
  TBSCertificate for the validity and reads its second element as the time. In a
  certificate signed with RSA the algorithm identifier, an OID and a NULL, stands before
  the validity and is such a SEQUENCE: the NULL is read as the time, the date is invalid,
  and the expiry of the record is \<open>NaN\<close>, neither the expiry of the certificate nor
  \<open>NA\<close>; the validity itself decodes to 31 December 2025. The same certificate with an
  algorithm identifier of one element gives that expiry. A certificate without a
  SEQUENCE of two elements gives the number 0.
\<close>

theorem expiry_read_from_algorithm_identifier:
  "parseCertificateFromBuffer strictForge (derEncode rsaSignedCertificate) =
     Inr \<lparr>serialNumber = ''05a1'', endDate = NaN, signerName = ''RAM'',
          tpin = ''ABCD1234'', state = ''KA'', gender = ''F'', yob = ''1990'',
          pincode = ''560001'', issuerName = ''CA'', issuerOrganisation = ''ORG''\<rparr> \<and>
   tbsFieldList rsaSignedTbs ! 2 = rsaAlgorithm \<and>
   utcTimeToDate strictForge (elementValue (valAt (asn1Value rsaAlgorithm) 1)) = Inr NaN \<and>
   utcTimeToDate strictForge (elementValue (valAt (asn1Value (tbsFieldList rsaSignedTbs ! 4)) 1)) =
     Inr (Number 1767225599000) \<and>
   parseCertificateFromBuffer strictForge (derEncode sampleCertificate) =
     Inr \<lparr>serialNumber = ''05a1'', endDate = Number 1767225599000, signerName = ''RAM'',
          tpin = ''ABCD1234'', state = ''KA'', gender = ''F'', yob = ''1990'',
          pincode = ''560001'', issuerName = ''CA'', issuerOrganisation = ''ORG''\<rparr> \<and>
   parseCertificateFromBuffer strictForge [0x30, 0x02, 0x30, 0x00] =
     Inr \<lparr>serialNumber = NA, endDate = Number 0, signerName = NA, tpin = NA, state = NA,
          gender = NA, yob = NA, pincode = NA, issuerName = NA, issuerOrganisation = NA\<rparr>"
proof -
  have "parseCertificateFromBuffer strictForge (derEncode rsaSignedCertificate) =
     Inr \<lparr>serialNumber = ''05a1'', endDate = NaN, signerName = ''RAM'',
          tpin = ''ABCD1234'', state = ''KA'', gender = ''F'', yob = ''1990'',
          pincode = ''560001'', issuerName = ''CA'', issuerOrganisation = ''ORG''\<rparr>"
    by (simp add: parseCertificateFromBuffer_def rsaSignedCertificate_not_pem strictForge_sel
        rsaSignedCertificate_der rsaSignedCertificate_details rethrow_def)
  moreover have "tbsFieldList rsaSignedTbs ! 2 = rsaAlgorithm"
    by (simp add: tbsFieldList_def rsaSignedTbs_def)
  moreover have "utcTimeToDate strictForge (elementValue (valAt (asn1Value rsaAlgorithm) 1)) = Inr NaN"
    by (simp add: rsaAlgorithm_def strictForge_sel valAt_def elementValue_def utcTime_def
        bytesText_def)
  moreover have "utcTimeToDate strictForge
      (elementValue (valAt (asn1Value (tbsFieldList rsaSignedTbs ! 4)) 1)) =
     Inr (Number 1767225599000)"
    by (simp add: tbsFieldList_def rsaSignedTbs_def strictForge_sel valAt_def elementValue_def
        utcTime_def bytesText_def char_of_def bit_Suc_0_iff timeOf_def twoDigits_def
        utcMillis_def js_eval)
  moreover have "parseCertificateFromBuffer strictForge [0x30, 0x02, 0x30, 0x00] =
     Inr \<lparr>serialNumber = NA, endDate = Number 0, signerName = NA, tpin = NA, state = NA,
          gender = NA, yob = NA, pincode = NA, issuerName = NA, issuerOrganisation = NA\<rparr>"
    by (simp add: der_eval parser_eval)
  ultimately show ?thesis using sampleCertificate_parsed by simp
qed

subsection \<open>The byte-pattern scan\<close>

lemmas scan_eval = certAt_def longFormAt_def byteAt_def numLengthBytesAt_def declaredLength_def
  lengthBytes.simps toInt32_def jsSlice_def arrayLength_def

lemma jsSlice_in_range:
  "0 \<le> a \<Longrightarrow> a \<le> b \<Longrightarrow> b \<le> int (length bs) \<Longrightarrow>
   jsSlice bs a b = take (nat (b - a)) (drop (nat a) bs)"
  by (simp add: jsSlice_def Let_def min_def)

lemma certAt_admissible:
  assumes "c \<in> set (certAt F bs i)"
  shows "admissible F bs c \<and> certOffset c = int i"
proof -
  let ?len = "declaredLength bs (int i)"
  let ?hdr = "2 + int (numLengthBytesAt bs (int i))"
  from assms have lf: "longFormAt bs (int i)"
    and r: "500 \<le> ?len" "?len \<le> 10000" "int i + ?hdr + ?len \<le> int (length bs)"
    by (auto simp: certAt_def Let_def split: if_splits)
  from assms lf r have "\<exists>a. fromDer F (jsSlice bs (int i) (int i + ?hdr + ?len)) = Inr a \<and>
      arrayLength a = Some 3 \<and>
      c = \<lparr>buffer = jsSlice bs (int i) (int i + ?hdr + ?len), certSize = ?hdr + ?len,
                 certOffset = int i\<rparr>"
    by (cases "fromDer F (jsSlice bs (int i) (int i + ?hdr + ?len))")
       (auto simp: certAt_def Let_def split: if_splits)
  then obtain a where a: "fromDer F (jsSlice bs (int i) (int i + ?hdr + ?len)) = Inr a"
      "arrayLength a = Some 3"
    and c: "c = \<lparr>buffer = jsSlice bs (int i) (int i + ?hdr + ?len), certSize = ?hdr + ?len,
                 certOffset = int i\<rparr>"
    by blast
  have s: "jsSlice bs (int i) (int i + ?hdr + ?len) = take (nat (?hdr + ?len)) (drop i bs)"
    using r by (subst jsSlice_in_range) (simp_all add: add.assoc)
  show ?thesis
    unfolding admissible_def using lf r a c s by simp
qed

lemma scanFrom_admissible:
  "c \<in> set (scanFrom F bs i) \<Longrightarrow> admissible F bs c \<and> int i \<le> certOffset c"
proof (induction F bs i rule: scanFrom.induct)
  case (1 F bs i)
  show ?case
  proof (cases "int i < int (length bs) - 100")
    case True
    with "1.prems" have "c \<in> set (certAt F bs i) \<or> c \<in> set (scanFrom F bs (i + 1))"
      by (subst (asm) scanFrom.simps) simp
    then show ?thesis
    proof
      assume "c \<in> set (certAt F bs i)"
      then show ?thesis using certAt_admissible by fastforce
    next
      assume "c \<in> set (scanFrom F bs (i + 1))"
      with "1.IH"[OF True] show ?thesis by simp
    qed
  next
    case False
    with "1.prems" show ?thesis by (subst (asm) scanFrom.simps) simp
  qed
qed

lemma certAt_offsets: "c \<in> set (certAt F bs i) \<Longrightarrow> certOffset c = int i"
  using certAt_admissible by blast

lemma certAt_single: "length (certAt F bs i) \<le> 1"
  by (simp add: certAt_def Let_def split: sum.splits)

lemma scanFrom_sorted: "sorted_wrt (<) (map certOffset (scanFrom F bs i))"
proof (induction F bs i rule: scanFrom.induct)
  case (1 F bs i)
  show ?case
  proof (cases "int i < int (length bs) - 100")
    case True
    have a: "sorted_wrt (<) (map certOffset (certAt F bs i))"
      using certAt_single[of F bs i] by (cases "certAt F bs i") auto
    have b: "\<forall>x \<in> set (certAt F bs i). \<forall>y \<in> set (scanFrom F bs (i + 1)). certOffset x < certOffset y"
      using certAt_offsets scanFrom_admissible[of _ F bs "i + 1"] by fastforce
    from a b "1.IH"[OF True] True show ?thesis
      by (subst scanFrom.simps) (simp add: sorted_wrt_append)
  next
    case False
    then show ?thesis by (subst scanFrom.simps) simp
  qed
qed

text \<open>
  C2, as the code has it. Every certificate the direct scan \<open>scanForCertificates\<close>
  emits passes one admissibility test: its slice starts at a long-form SEQUENCE tag,
  the declared length is between 500 and 10000, the slice is the header and the declared
  length and lies within the bytes, and it parses to exactly three top-level elements.
  The certificates are emitted in scan order. (The later strategies of the fallback are
  not bound by this test.)
\<close>

theorem scan_admissible:
  "(\<forall>c \<in> set (scanForCertificates F bs). admissible F bs c) \<and>
   sorted_wrt (<) (map certOffset (scanForCertificates F bs))"
  using scanFrom_admissible[of _ F bs 0] scanFrom_sorted[of F bs 0]
  by (auto simp: scanForCertificates_def)

lemma certAt_no_tag: "byteAt bs (int i) \<noteq> Some 0x30 \<Longrightarrow> certAt F bs i = []"
  by (simp add: certAt_def longFormAt_def)

lemma scanFrom_no_tag:
  "\<forall>j \<ge> i. int j < int (length bs) - 100 \<longrightarrow> byteAt bs (int j) \<noteq> Some 0x30 \<Longrightarrow>
   scanFrom F bs i = []"
proof (induction F bs i rule: scanFrom.induct)
  case (1 F bs i)
  show ?case
  proof (cases "int i < int (length bs) - 100")
    case True
    with "1.prems" have "certAt F bs i = []" by (intro certAt_no_tag) simp
    moreover have "scanFrom F bs (i + 1) = []" using "1.IH"[OF True] "1.prems" by simp
    ultimately show ?thesis using True by (subst scanFrom.simps) simp
  next
    case False
    then show ?thesis by (subst scanFrom.simps) simp
  qed
qed

lemma sequence500_parse:
  "derParse sequence500 =
     Inr (Asn1 0 16 True (Nodes [Asn1 0 4 False (Bytes (replicate 492 0)),
            Asn1 0 5 False (Bytes []), Asn1 0 5 False (Bytes [])]))"
  by (simp add: sequence500_def der_eval)

lemma sequence500_first:
  "certAt strictForge sequence500 0 = [\<lparr>buffer = sequence500, certSize = 504, certOffset = 0\<rparr>]"
  using sequence500_parse by (simp add: scan_eval strictForge_sel sequence500_def)

lemma sequence500_rest:
  "1 \<le> j \<Longrightarrow> j < 404 \<Longrightarrow> byteAt sequence500 (int j) \<noteq> Some 0x30"
  by (auto simp: sequence500_def byteAt_def nth_append nth_Cons')

lemma sequence500_scan:
  "scanForCertificates strictForge sequence500 =
     [\<lparr>buffer = sequence500, certSize = 504, certOffset = 0\<rparr>]"
proof -
  have len: "length sequence500 = 504" by (simp add: sequence500_def)
  have "scanFrom strictForge sequence500 (0 + 1) = []"
  proof (rule scanFrom_no_tag, intro allI impI)
    fix j assume "0 + 1 \<le> j" "int j < int (length sequence500) - 100"
    then have "1 \<le> j" "j < 404" using len by simp_all
    then show "byteAt sequence500 (int j) \<noteq> Some 0x30" by (rule sequence500_rest)
  qed
  then show ?thesis
    unfolding scanForCertificates_def
    by (subst scanFrom.simps) (simp add: sequence500_first len)
qed

theorem scan_admissible_witness:
  "scanForCertificates strictForge sequence500 =
     [\<lparr>buffer = sequence500, certSize = 504, certOffset = 0\<rparr>] \<and>
   admissible strictForge sequence500 \<lparr>buffer = sequence500, certSize = 504, certOffset = 0\<rparr> \<and>
   declaredLength sequence500 0 = 500"
proof -
  have "admissible strictForge sequence500 \<lparr>buffer = sequence500, certSize = 504, certOffset = 0\<rparr>"
    using scan_admissible[of strictForge sequence500] by (simp add: sequence500_scan)
  moreover have "declaredLength sequence500 0 = 500"
    by (simp add: sequence500_def scan_eval)
  ultimately show ?thesis using sequence500_scan by simp
qed


lemma strategy1From_no_tag:
  "\<forall>j \<ge> i. int j < int (length bs) - 4 \<longrightarrow> byteAt bs (int j) \<noteq> Some 0xA0 \<Longrightarrow>
   strategy1From F bs i = Some None"
proof (induction F bs i rule: strategy1From.induct)
  case (1 F bs i)
  show ?case
  proof (cases "int i < int (length bs) - 4")
    case True
    with "1.prems" have n: "byteAt bs (int i) \<noteq> Some 0xA0" by simp
    have "strategy1From F bs (i + 1) = Some None" using "1.IH"(2)[OF True n] "1.prems" by simp
    with True n show ?thesis by (subst strategy1From.simps) simp
  next
    case False
    then show ?thesis by (subst strategy1From.simps) simp
  qed
qed

lemma sequence400_parse:
  "derParse sequence400 =
     Inr (Asn1 0 16 True (Nodes [Asn1 0 4 False (Bytes (replicate 392 0)),
            Asn1 0 5 False (Bytes []), Asn1 0 5 False (Bytes [])]))"
  by (simp add: sequence400_def der_eval)

lemma sequence400_bytes:
  "1 \<le> j \<Longrightarrow> j < 404 \<Longrightarrow>
   byteAt sequence400 (int j) \<noteq> Some 0x30 \<and> byteAt sequence400 (int j) \<noteq> Some 0xA0"
  by (auto simp: sequence400_def byteAt_def nth_append nth_Cons')

lemma sequence400_length: "length sequence400 = 404"
  by (simp add: sequence400_def)

lemma sequence400_declared: "longFormAt sequence400 0 \<and> declaredLength sequence400 0 = 400"
  by (simp add: sequence400_def scan_eval)

lemma sequence400_scan: "scanForCertificates strictForge sequence400 = []"
proof -
  have "scanFrom strictForge sequence400 (0 + 1) = []"
  proof (rule scanFrom_no_tag, intro allI impI)
    fix j assume "0 + 1 \<le> j" "int j < int (length sequence400) - 100"
    then have "1 \<le> j" "j < 404" using sequence400_length by simp_all
    then show "byteAt sequence400 (int j) \<noteq> Some 0x30" using sequence400_bytes by blast
  qed
  moreover have "certAt strictForge sequence400 0 = []"
    using sequence400_declared by (simp add: certAt_def)
  ultimately show ?thesis
    unfolding scanForCertificates_def
    by (subst scanFrom.simps) (simp add: sequence400_length)
qed

lemma sequence400_strategy1: "strategy1From strictForge sequence400 0 = Some None"
proof (rule strategy1From_no_tag, intro allI impI)
  fix j assume "0 \<le> j" "int j < int (length sequence400) - 4"
  then have j: "j < 404" using sequence400_length by simp
  show "byteAt sequence400 (int j) \<noteq> Some 0xA0"
  proof (cases "j = 0")
    case True
    then show ?thesis by (simp add: sequence400_def byteAt_def)
  next
    case False
    with j sequence400_bytes[of j] show ?thesis by simp
  qed
qed

lemma sequence400_strategy2: "strategy2From strictForge sequence400 0 = Some sequence400"
proof -
  have "strategy2At strictForge sequence400 0 = Some sequence400"
    using sequence400_declared sequence400_parse
    by (simp add: strategy2At_def sequence400_length numLengthBytesAt_def jsSlice_def
        arrayLength_def strictForge_sel)
       (simp add: sequence400_def byteAt_def arrayLength_def)
  then show ?thesis by (subst strategy2From.simps) (simp add: sequence400_length)
qed

lemmas pattern_eval = extractCertificateByPattern_def scanForCertificates_def scanFrom.simps
  strategy1From.simps a0TagLength_def seqTagLength_def sequenceScan.simps trySequence_def
  rawScan.simps rawCertAt_def strategy2From.simps strategy2At_def hasAadhaarData_def scan_eval

lemma shortSection_extracted:
  "extractCertificateByPattern strictForge shortSection = Some (Inr [0x30, 6, 0x30, 0, 5, 0, 5, 0])"
  by (simp add: shortSection_def der_eval pattern_eval)

text \<open>
  The claim as stated fails for the fallback as a whole. Its last strategy returns a
  slice whose declared length is 400, below the bound, and its strategy for the
  certificates section returns a slice of eight bytes with a declared length of 6; the
  direct scan emits neither.
\<close>

theorem scan_admissible_counterexample:
  "extractCertificateByPattern strictForge sequence400 = Some (Inr sequence400) \<and>
   declaredLength sequence400 0 = 400 \<and>
   scanForCertificates strictForge sequence400 = [] \<and>
   extractCertificateByPattern strictForge shortSection = Some (Inr [0x30, 6, 0x30, 0, 5, 0, 5, 0]) \<and>
   scanForCertificates strictForge shortSection = []"
proof -
  have "extractCertificateByPattern strictForge sequence400 = Some (Inr sequence400)"
    by (simp add: extractCertificateByPattern_def sequence400_scan sequence400_strategy1
        sequence400_strategy2)
  moreover have "scanForCertificates strictForge shortSection = []"
    by (simp add: shortSection_def scanForCertificates_def scanFrom.simps)
  ultimately show ?thesis
    using sequence400_declared sequence400_scan shortSection_extracted by simp
qed

text \<open>
  C6: the code at the input where it departs from the claim. At the SEQUENCE tag inside
  the certificates section the length byte \<open>0x80\<close> is read as the long form with no
  length bytes: length 0 and a header of 2 bytes, the same as for the definite length
  \<open>0x00\<close>. At the \<open>0xA0\<close> tag the same byte is the indefinite form (the section runs to
  the end of the bytes) and differs from \<open>0x00\<close>. Both places read \<open>0x82 0x01 0x23\<close> as
  the length \<open>0x123\<close>.
\<close>

theorem sequence_indefinite_read_as_zero:
  "seqTagLength [0x30, 0x80, 0x30, 0x00, 0x00, 0x00] 0 = (Some 0, 2) \<and>
   seqTagLength [0x30, 0x00, 0x30, 0x00, 0x00, 0x00] 0 = (Some 0, 2) \<and>
   a0TagLength [0xA0, 0x80, 0x30, 0x00, 0x00, 0x00] 0 = (2, 4) \<and>
   a0TagLength [0xA0, 0x00, 0x30, 0x00, 0x00, 0x00] 0 = (2, 0) \<and>
   seqTagLength [0x30, 0x82, 0x01, 0x23] 0 = (Some 0x123, 4) \<and>
   a0TagLength [0xA0, 0x82, 0x01, 0x23] 0 = (4, 0x123)"
  by (simp add: seqTagLength_def a0TagLength_def byteAt_def lengthBytes.simps toInt32_def)

subsection \<open>The selection of the certificate\<close>

text \<open>Among the certificates that a scan has found, the loop returns the first, in the
  order of the scan, whose record has Aadhaar data.\<close>

lemma firstAadhaar_find:
  "firstAadhaar F certs =
     map_option buffer
       (find (\<lambda>cert. case parseCertificateFromBuffer F (buffer cert) of
                        Inl parseError \<Rightarrow> False
                      | Inr details \<Rightarrow> hasAadhaarData details) certs)"
  by (induction certs) (auto split: sum.splits)

text \<open>Strategy 0: of the certificates of the direct scan, the first with Aadhaar data
  and, without one, the first.\<close>

lemma extractCertificateByPattern_scan:
  assumes "scanForCertificates F pkcs7Binary = c # cs"
  shows "extractCertificateByPattern F pkcs7Binary =
     Some (Inr (case find (\<lambda>cert. case parseCertificateFromBuffer F (buffer cert) of
                                   Inl parseError \<Rightarrow> False
                                 | Inr details \<Rightarrow> hasAadhaarData details) (c # cs) of
                  Some cert \<Rightarrow> buffer cert
                | None \<Rightarrow> buffer c))"
  using assms
  by (simp add: extractCertificateByPattern_def firstAadhaar_find split: option.splits)

text \<open>The nested scan of strategy 1 returns, without a certificate with Aadhaar data,
  the first certificate of the largest size.\<close>

lemma largest_member: "largest cs best \<in> set (best # cs)"
  by (induction cs arbitrary: best) auto

lemma largest_max: "c \<in> set (best # cs) \<Longrightarrow> certSize c \<le> certSize (largest cs best)"
proof (induction cs arbitrary: best c)
  case Nil
  then show ?case by simp
next
  case (Cons x xs)
  let ?b = "if certSize best < certSize x then x else best"
  have b: "certSize best \<le> certSize ?b" "certSize x \<le> certSize ?b" by auto
  have m: "certSize ?b \<le> certSize (largest xs ?b)" by (rule Cons.IH) simp
  from Cons.prems consider "c = best" | "c = x" | "c \<in> set xs" by auto
  then show ?case
  proof cases
    case 1
    with b m show ?thesis by simp
  next
    case 2
    with b m show ?thesis by simp
  next
    case 3
    then have "certSize c \<le> certSize (largest xs ?b)" by (intro Cons.IH) simp
    then show ?thesis by simp
  qed
qed

subsection \<open>The selection of the signature\<close>

lemma firstAadhaarSignature_find:
  "\<forall>h \<in> set sigs. extractCertificateFromPKCS7 F (hexToBytes h) \<noteq> None \<Longrightarrow>
   firstAadhaarSignature F sigs =
     Some (case find (qualifies F) sigs of
             None \<Rightarrow> None
           | Some h \<Rightarrow>
               (case extractCertificateFromPKCS7 F (hexToBytes h) of
                  Some (Inr cert) \<Rightarrow> Some cert
                | _ \<Rightarrow> None))"
proof (induction sigs)
  case Nil
  then show ?case by simp
next
  case (Cons h sigs)
  then obtain r where r: "extractCertificateFromPKCS7 F (hexToBytes h) = Some r" by auto
  from Cons have ih: "firstAadhaarSignature F sigs =
     Some (case find (qualifies F) sigs of
             None \<Rightarrow> None
           | Some h \<Rightarrow>
               (case extractCertificateFromPKCS7 F (hexToBytes h) of
                  Some (Inr cert) \<Rightarrow> Some cert
                | _ \<Rightarrow> None))" by simp
  show ?case
  proof (cases r)
    case (Inl e)
    with r have "\<not> qualifies F h" by (simp add: qualifies_def)
    with Inl r ih show ?thesis by simp
  next
    case (Inr cert)
    show ?thesis
    proof (cases "parseCertificateFromBuffer F cert")
      case (Inl e)
      with r Inr have "\<not> qualifies F h" by (simp add: qualifies_def)
      with Inl r Inr ih show ?thesis by simp
    next
      case d: (Inr details)
      with r Inr have "qualifies F h = hasAadhaarData details" by (simp add: qualifies_def)
      with d r Inr ih show ?thesis by simp
    qed
  qed
qed

lemma find_qualifies_cert:
  "find (qualifies F) sigs = Some h \<Longrightarrow>
   \<exists>cert d. extractCertificateFromPKCS7 F (hexToBytes h) = Some (Inr cert) \<and>
      parseCertificateFromBuffer F cert = Inr d \<and> hasAadhaarData d"
proof -
  assume "find (qualifies F) sigs = Some h"
  then have "qualifies F h" by (auto simp: find_Some_iff)
  then show ?thesis
    by (auto simp: qualifies_def split: option.splits sum.splits)
qed

lemma extractCertificateFromPDF_selected:
  assumes sigs: "map snd (sigMatches pdf) = first # rest"
    and ends: "\<forall>h \<in> set (first # rest). extractCertificateFromPKCS7 F (hexToBytes h) \<noteq> None"
  shows "extractCertificateFromPDF F pdf =
     rethrowOpt ''Failed to extract certificate from PDF: ''
       (extractCertificateFromPKCS7 F
          (hexToBytes (case find (qualifies F) (first # rest) of None \<Rightarrow> first | Some h \<Rightarrow> h)))"
proof (cases "find (qualifies F) (first # rest)")
  case None
  with firstAadhaarSignature_find[OF ends] sigs show ?thesis
    by (simp add: extractCertificateFromPDF_def)
next
  case (Some h)
  from find_qualifies_cert[OF Some] obtain cert where
    "extractCertificateFromPKCS7 F (hexToBytes h) = Some (Inr cert)" by blast
  with firstAadhaarSignature_find[OF ends] sigs Some show ?thesis
    by (simp add: extractCertificateFromPDF_def rethrowOpt_def rethrow_def)
qed

text \<open>
  What the pipeline returns when the extraction of every signature candidate ends. For a
  document with the PDF header it is the record of the first signature candidate, in
  locator order, that qualifies: the certificate extracted from it decodes to a record in
  which at least one of \<open>tpin\<close>, \<open>gender\<close>, \<open>yob\<close>, \<open>pincode\<close> is not \<open>NA\<close>. When no
  signature candidate qualifies it is what the extraction and the decoding give for the
  first signature candidate: its record, or its error. Without a signature candidate it
  is the error that no signature was found.
\<close>

lemma selection_when_extractions_end:
  "isPDF pdf \<Longrightarrow>
   \<forall>h \<in> set (map snd (sigMatches pdf)). extractCertificateFromPKCS7 F (hexToBytes h) \<noteq> None \<Longrightarrow>
   processSinglePDF F pdf =
     (case map snd (sigMatches pdf) of
        [] \<Rightarrow> Some (Inl (''Failed to extract certificate: '' @
                 ''Failed to extract certificate from PDF: '' @
                 ''No signature found in PDF. The PDF may not be digitally signed.''))
      | first # rest \<Rightarrow>
          signatureResult F (case find (qualifies F) (first # rest) of None \<Rightarrow> first | Some h \<Rightarrow> h)) \<and>
   (\<forall>h. find (qualifies F) (map snd (sigMatches pdf)) = Some h \<longrightarrow>
      (\<exists>d. processSinglePDF F pdf = Some (Inr d) \<and> hasAadhaarData d))"
proof -
  assume pdf: "isPDF pdf"
    and ends: "\<forall>h \<in> set (map snd (sigMatches pdf)). extractCertificateFromPKCS7 F (hexToBytes h) \<noteq> None"
  have main: "processSinglePDF F pdf =
     (case map snd (sigMatches pdf) of
        [] \<Rightarrow> Some (Inl (''Failed to extract certificate: '' @
                 ''Failed to extract certificate from PDF: '' @
                 ''No signature found in PDF. The PDF may not be digitally signed.''))
      | first # rest \<Rightarrow>
          signatureResult F (case find (qualifies F) (first # rest) of None \<Rightarrow> first | Some h \<Rightarrow> h))"
  proof (cases "map snd (sigMatches pdf)")
    case Nil
    with pdf show ?thesis
      by (simp add: processSinglePDF_def extractCertificateFromPDF_def rethrowOpt_def rethrow_def)
  next
    case (Cons first rest)
    let ?h = "case find (qualifies F) (first # rest) of None \<Rightarrow> first | Some h \<Rightarrow> h"
    from ends Cons have e: "\<forall>h \<in> set (first # rest). extractCertificateFromPKCS7 F (hexToBytes h) \<noteq> None"
      by simp
    have "extractCertificateFromPDF F pdf =
       rethrowOpt ''Failed to extract certificate from PDF: ''
         (extractCertificateFromPKCS7 F (hexToBytes ?h))"
      by (rule extractCertificateFromPDF_selected[OF Cons e])
    with pdf Cons show ?thesis
      by (cases "extractCertificateFromPKCS7 F (hexToBytes ?h)")
         (auto simp: processSinglePDF_def signatureResult_def rethrowOpt_def rethrow_def
           split: sum.splits)
  qed
  have "\<forall>h. find (qualifies F) (map snd (sigMatches pdf)) = Some h \<longrightarrow>
      (\<exists>d. processSinglePDF F pdf = Some (Inr d) \<and> hasAadhaarData d)"
  proof (intro allI impI)
    fix h assume f: "find (qualifies F) (map snd (sigMatches pdf)) = Some h"
    from find_qualifies_cert[OF f] obtain cert d where
      c: "extractCertificateFromPKCS7 F (hexToBytes h) = Some (Inr cert)"
        "parseCertificateFromBuffer F cert = Inr d" "hasAadhaarData d" by blast
    from f obtain first rest where l: "map snd (sigMatches pdf) = first # rest"
      by (cases "map snd (sigMatches pdf)") auto
    with main f c show "\<exists>d. processSinglePDF F pdf = Some (Inr d) \<and> hasAadhaarData d"
      by (simp add: signatureResult_def rethrow_def)
  qed
  with main show ?thesis by blast
qed


lemmas pkcs7_eval = extractCertificateFromPKCS7_def standardPkcs7_def
  extractCertificateFromASN1_def rethrowOpt_def

lemmas pdf_eval = processSinglePDF_def isPDF_def extractCertificateFromPDF_def sigMatches_def
  matchAll.simps contentsHex_def lit_def isHexChar_def

lemma aadhaarSignature_bytes:
  "hexToBytes aadhaarSignature = 0xA0 # 0x25 # aadhaarCertificate @ [0]"
  by (simp add: aadhaarSignature_def aadhaarCertificate_def js_eval)

lemma plainSignature_bytes:
  "hexToBytes plainSignature = shortSection"
  by (simp add: plainSignature_def shortSection_def js_eval)

lemma aadhaarSection_extracted:
  "extractCertificateByPattern strictForge (0xA0 # 0x25 # aadhaarCertificate @ [0]) =
     Some (Inr aadhaarCertificate)"
  by (simp add: aadhaarCertificate_def der_eval pattern_eval)

lemma aadhaarSignature_certificate:
  "extractCertificateFromPKCS7 strictForge (hexToBytes aadhaarSignature) =
     Some (Inr aadhaarCertificate)"
proof -
  have "derParse (0xA0 # 0x25 # aadhaarCertificate @ [0]) =
      Inl ''Unparsed DER bytes remain after ASN.1 parsing.''"
    by (simp add: aadhaarCertificate_def der_eval)
  then show ?thesis
    by (simp add: aadhaarSignature_bytes pkcs7_eval rethrow_def strictForge_sel
        aadhaarSection_extracted)
qed

lemma plainSignature_certificate:
  "extractCertificateFromPKCS7 strictForge (hexToBytes plainSignature) =
     Some (Inr [0x30, 6, 0x30, 0, 5, 0, 5, 0])"
proof -
  have "derParse shortSection = Inl ''Unparsed DER bytes remain after ASN.1 parsing.''"
    by (simp add: shortSection_def der_eval)
  then show ?thesis
    by (simp add: plainSignature_bytes pkcs7_eval rethrow_def strictForge_sel
        shortSection_extracted)
qed

lemma emptySignature_fails:
  "extractCertificateFromPKCS7 strictForge (hexToBytes brokenSignature) =
     Some (Inl (''Failed to extract certificate from PKCS#7: '' @
                ''Failed to extract certificate from ASN.1: '' @
                ''Too few bytes to parse DER.''))"
  by (simp add: brokenSignature_def js_eval pkcs7_eval rethrow_def der_eval pattern_eval)

lemma aadhaarCertificate_parsed:
  "parseCertificateFromBuffer strictForge aadhaarCertificate =
     Inr \<lparr>serialNumber = NA, endDate = Number 0, signerName = NA, tpin = ''X1'', state = NA,
          gender = NA, yob = NA, pincode = NA, issuerName = ''C'', issuerOrganisation = NA\<rparr>"
  by (simp add: aadhaarCertificate_def der_eval parser_eval oidText_def showNat.simps nameMap_def
      bytesText_def char_of_def bit_Suc_0_iff js_eval)

lemma plainCertificate_parsed:
  "parseCertificateFromBuffer strictForge [0x30, 6, 0x30, 0, 5, 0, 5, 0] = Inr plainDetails"
  by (simp add: plainDetails_def der_eval parser_eval)


lemma aadhaarDocument_signatures:
  "map snd (sigMatches aadhaarDocument) = [brokenSignature, aadhaarSignature]"
  by (simp add: aadhaarDocument_def aadhaarSignature_def brokenSignature_def pdf_eval
      isStrWhiteSpace_def)

lemma plainDocument_signatures:
  "map snd (sigMatches plainDocument) = [brokenSignature, plainSignature]"
  by (simp add: plainDocument_def plainSignature_def brokenSignature_def pdf_eval
      isStrWhiteSpace_def)

lemma headlessDocument_signatures:
  "map snd (sigMatches headlessDocument) = [plainSignature]"
  by (simp add: headlessDocument_def plainSignature_def pdf_eval isStrWhiteSpace_def)

lemma emptySignature_not_qualifies: "\<not> qualifies strictForge brokenSignature"
  by (simp add: qualifies_def emptySignature_fails)

lemma aadhaarSignature_qualifies: "qualifies strictForge aadhaarSignature"
  by (simp add: qualifies_def aadhaarSignature_certificate aadhaarCertificate_parsed
      hasAadhaarData_def NA_def)

lemma plainSignature_not_qualifies: "\<not> qualifies strictForge plainSignature"
  by (simp add: qualifies_def plainSignature_certificate plainCertificate_parsed
      hasAadhaarData_def plainDetails_def)

lemma aadhaarDocument_record:
  "isPDF aadhaarDocument \<and>
   map snd (sigMatches aadhaarDocument) = [brokenSignature, aadhaarSignature] \<and>
   extractCertificateFromPKCS7 strictForge (hexToBytes brokenSignature) =
     Some (Inl (''Failed to extract certificate from PKCS#7: '' @
                ''Failed to extract certificate from ASN.1: '' @
                ''Too few bytes to parse DER.'')) \<and>
   extractCertificateFromPKCS7 strictForge (hexToBytes aadhaarSignature) =
     Some (Inr aadhaarCertificate) \<and>
   find (qualifies strictForge) [brokenSignature, aadhaarSignature] = Some aadhaarSignature \<and>
   processSinglePDF strictForge aadhaarDocument =
     Some (Inr \<lparr>serialNumber = NA, endDate = Number 0, signerName = NA, tpin = ''X1'',
                state = NA, gender = NA, yob = NA, pincode = NA, issuerName = ''C'',
                issuerOrganisation = NA\<rparr>)"
proof -
  have pdf: "isPDF aadhaarDocument"
    by (simp add: aadhaarDocument_def brokenSignature_def isPDF_def)
  have f: "find (qualifies strictForge) [brokenSignature, aadhaarSignature] = Some aadhaarSignature"
    using emptySignature_not_qualifies aadhaarSignature_qualifies by simp
  have "processSinglePDF strictForge aadhaarDocument = signatureResult strictForge aadhaarSignature"
    using selection_when_extractions_end[of aadhaarDocument strictForge] pdf f
    by (simp add: aadhaarDocument_signatures emptySignature_fails aadhaarSignature_certificate)
  then have "processSinglePDF strictForge aadhaarDocument =
     Some (Inr \<lparr>serialNumber = NA, endDate = Number 0, signerName = NA, tpin = ''X1'',
                state = NA, gender = NA, yob = NA, pincode = NA, issuerName = ''C'',
                issuerOrganisation = NA\<rparr>)"
    by (simp add: signatureResult_def aadhaarSignature_certificate aadhaarCertificate_parsed
        rethrow_def)
  with pdf f show ?thesis
    using aadhaarDocument_signatures emptySignature_fails aadhaarSignature_certificate by simp
qed

text \<open>
  When the first signature candidate does not decode and a later one decodes to a record
  without Aadhaar data, the pipeline does not return that record: it fails with the error
  of the first signature candidate.
\<close>

lemma plainDocument_error:
  "isPDF plainDocument \<and>
   map snd (sigMatches plainDocument) = [brokenSignature, plainSignature] \<and>
   signatureResult strictForge plainSignature = Some (Inr plainDetails) \<and>
   \<not> hasAadhaarData plainDetails \<and>
   processSinglePDF strictForge plainDocument =
     Some (Inl (''Failed to extract certificate: '' @
                ''Failed to extract certificate from PDF: '' @
                ''Failed to extract certificate from PKCS#7: '' @
                ''Failed to extract certificate from ASN.1: '' @
                ''Too few bytes to parse DER.''))"
proof -
  have pdf: "isPDF plainDocument"
    by (simp add: plainDocument_def brokenSignature_def isPDF_def)
  have r: "signatureResult strictForge plainSignature = Some (Inr plainDetails)"
    by (simp add: signatureResult_def plainSignature_certificate plainCertificate_parsed
        rethrow_def)
  have n: "\<not> hasAadhaarData plainDetails"
    by (simp add: hasAadhaarData_def plainDetails_def)
  have "firstAadhaarSignature strictForge [brokenSignature, plainSignature] = Some None"
    using n by (simp add: emptySignature_fails plainSignature_certificate plainCertificate_parsed)
  then have "extractCertificateFromPDF strictForge plainDocument =
     Some (Inl (''Failed to extract certificate from PDF: '' @
                ''Failed to extract certificate from PKCS#7: '' @
                ''Failed to extract certificate from ASN.1: '' @
                ''Too few bytes to parse DER.''))"
    by (simp add: extractCertificateFromPDF_def plainDocument_signatures emptySignature_fails
        rethrowOpt_def rethrow_def)
  with pdf r n show ?thesis
    using plainDocument_signatures by (simp add: processSinglePDF_def)
qed

subsection \<open>A scan that does not end\<close>

text \<open>The loop of strategy 1 does not end when it stands at a SEQUENCE whose header and
  declared length add up to 0 and whose empty slice the library refuses.\<close>

lemma sequenceScan_stuck:
  assumes "scanPos < sectionEnd" "scanPos < int (length bs)" "byteAt bs scanPos = Some 0x30"
    and "seqTagLength bs scanPos = (Some seqLength, seqLengthBytes)"
    and "seqLengthBytes + seqLength = 0"
    and "trySequence F bs scanPos scanPos (jsSlice bs scanPos scanPos) = None"
  shows "sequenceScan F bs sectionEnd scanPos = None"
proof (rule ccontr)
  assume "sequenceScan F bs sectionEnd scanPos \<noteq> None"
  then obtain y where y: "sequenceScan F bs sectionEnd scanPos = Some y" by auto
  have "\<not> (F = F \<and> bs = bs \<and> sectionEnd = sectionEnd \<and> scanPos = scanPos)"
  proof (rule sequenceScan.raw_induct
      [where P = "\<lambda>F' bs' e' p' y'. \<not> (F' = F \<and> bs' = bs \<and> e' = sectionEnd \<and> p' = scanPos)",
        OF _ y])
    fix scan :: "forge \<Rightarrow> bytes \<Rightarrow> int \<Rightarrow> int \<Rightarrow> bytes option option"
    fix F' bs' e' p' y'
    assume ih: "\<And>F' bs' e' p' y'. scan F' bs' e' p' = Some y' \<Longrightarrow>
        \<not> (F' = F \<and> bs' = bs \<and> e' = sectionEnd \<and> p' = scanPos)"
    assume body: "(if p' < e' \<and> p' < int (length bs')
      then if byteAt bs' p' = Some 48
           then case seqTagLength bs' p' of
                (None, seqLengthBytes) \<Rightarrow>
                  (case trySequence F' bs' p' 0 (jsSlice bs' p' 0) of
                  None \<Rightarrow> Some None | Some cert \<Rightarrow> Some (Some cert))
                | (Some seqLength, seqLengthBytes) \<Rightarrow>
                    (case trySequence F' bs' p'
                          (p' + seqLengthBytes + seqLength)
                          (jsSlice bs' p'
                            (p' + seqLengthBytes + seqLength)) of
                    None \<Rightarrow>
                      scan F' bs' e'
                       (p' + (seqLengthBytes + seqLength))
                    | Some cert \<Rightarrow> Some (Some cert))
           else scan F' bs' e' (p' + 1)
      else Some None) =
     Some y'"
    show "\<not> (F' = F \<and> bs' = bs \<and> e' = sectionEnd \<and> p' = scanPos)"
    proof
      assume eq: "F' = F \<and> bs' = bs \<and> e' = sectionEnd \<and> p' = scanPos"
      from assms(5) have "scanPos + seqLengthBytes + seqLength = scanPos" by simp
      with body eq assms have "scan F bs sectionEnd scanPos = Some y'" by simp
      from ih[OF this] show False by simp
    qed
  qed
  then show False by simp
qed

lemma stuckSignature_bytes:
  "hexToBytes stuckSignature = [5, 0, 0xA0, 0x80, 0x30, 0x84, 0xFF, 0xFF, 0xFF, 0xFA, 0, 0]"
  by (simp add: stuckSignature_def js_eval)

lemma stuck_length:
  "seqTagLength [5, 0, 0xA0, 0x80, 0x30, 0x84, 0xFF, 0xFF, 0xFF, 0xFA, 0, 0] 4 = (Some (- 6), 6)"
  by (simp add: seqTagLength_def byteAt_def lengthBytes.simps toInt32_def)

lemma stuck_scan:
  "sequenceScan strictForge [5, 0, 0xA0, 0x80, 0x30, 0x84, 0xFF, 0xFF, 0xFF, 0xFA, 0, 0] 12 4 = None"
proof (rule sequenceScan_stuck[OF _ _ _ stuck_length])
  show "trySequence strictForge [5, 0, 0xA0, 0x80, 0x30, 0x84, 0xFF, 0xFF, 0xFF, 0xFA, 0, 0] 4 4
     (jsSlice [5, 0, 0xA0, 0x80, 0x30, 0x84, 0xFF, 0xFF, 0xFF, 0xFA, 0, 0] 4 4) = None"
    by (simp add: trySequence_def jsSlice_def der_eval)
qed (simp_all add: byteAt_def)

lemma stuck_pattern:
  "extractCertificateByPattern strictForge
     [5, 0, 0xA0, 0x80, 0x30, 0x84, 0xFF, 0xFF, 0xFF, 0xFA, 0, 0] = None"
proof -
  have "scanForCertificates strictForge
      [5, 0, 0xA0, 0x80, 0x30, 0x84, 0xFF, 0xFF, 0xFF, 0xFA, 0, 0] = []"
    by (simp add: scanForCertificates_def scanFrom.simps scan_eval)
  moreover have "strategy1From strictForge
      [5, 0, 0xA0, 0x80, 0x30, 0x84, 0xFF, 0xFF, 0xFF, 0xFA, 0, 0] 0 = None"
    by (simp add: strategy1From.simps a0TagLength_def byteAt_def stuck_scan)
  ultimately show ?thesis by (simp add: extractCertificateByPattern_def)
qed

lemma stuck_extraction:
  "extractCertificateFromPKCS7 strictForge (hexToBytes stuckSignature) = None"
proof -
  have "derParse [5, 0, 0xA0, 0x80, 0x30, 0x84, 0xFF, 0xFF, 0xFF, 0xFA, 0, 0] =
      Inl ''Unparsed DER bytes remain after ASN.1 parsing.''"
    by (simp add: der_eval)
  then show ?thesis
    by (simp add: stuckSignature_bytes extractCertificateFromPKCS7_def standardPkcs7_def
        extractCertificateFromASN1_def rethrowOpt_def strictForge_sel stuck_pattern)
qed

text \<open>
  C1: the code at an input where it departs from the claim. The document has the PDF
  header and one signature candidate. The library reports unparsed bytes, so the byte
  patterns are tried. In the certificates section behind the \<open>0xA0\<close> tag the SEQUENCE at
  position 4 has the four-byte length \<open>FF FF FF FA\<close>, which the 32-bit arithmetic of the
  scan reads as \<open>-6\<close>: with its header of 6 bytes the slice is empty, the library refuses
  it, and the scan moves on by \<open>6 + (-6) = 0\<close> bytes. The loop stays at this position, and
  the pipeline returns neither a record nor an error.
\<close>

theorem pipeline_does_not_return:
  "isPDF stuckDocument \<and>
   map snd (sigMatches stuckDocument) = [stuckSignature] \<and>
   hexToBytes stuckSignature = [5, 0, 0xA0, 0x80, 0x30, 0x84, 0xFF, 0xFF, 0xFF, 0xFA, 0, 0] \<and>
   fromDer strictForge (hexToBytes stuckSignature) =
     Inl ''Unparsed DER bytes remain after ASN.1 parsing.'' \<and>
   a0TagLength (hexToBytes stuckSignature) 2 = (4, 8) \<and>
   seqTagLength (hexToBytes stuckSignature) 4 = (Some (- 6), 6) \<and>
   sequenceScan strictForge (hexToBytes stuckSignature) 12 4 = None \<and>
   extractCertificateByPattern strictForge (hexToBytes stuckSignature) = None \<and>
   extractCertificateFromPDF strictForge stuckDocument = None \<and>
   processSinglePDF strictForge stuckDocument = None"
proof -
  have pdf: "isPDF stuckDocument"
    by (simp add: stuckDocument_def isPDF_def)
  have sigs: "map snd (sigMatches stuckDocument) = [stuckSignature]"
    by (simp add: stuckDocument_def stuckSignature_def sigMatches_def matchAll.simps
        contentsHex_def lit_def isHexChar_def isStrWhiteSpace_def)
  have der: "fromDer strictForge (hexToBytes stuckSignature) =
     Inl ''Unparsed DER bytes remain after ASN.1 parsing.''"
    by (simp add: stuckSignature_bytes der_eval)
  have a0: "a0TagLength (hexToBytes stuckSignature) 2 = (4, 8)"
    by (simp add: stuckSignature_bytes a0TagLength_def byteAt_def)
  have ex: "extractCertificateFromPDF strictForge stuckDocument = None"
    by (simp add: extractCertificateFromPDF_def sigs stuck_extraction rethrowOpt_def)
  then have "processSinglePDF strictForge stuckDocument = None"
    using pdf by (simp add: processSinglePDF_def)
  with pdf sigs der a0 ex show ?thesis
    using stuck_length stuck_scan stuck_pattern by (simp add: stuckSignature_bytes)
qed

subsection \<open>The check of the header\<close>

text \<open>
  C5, as the code has it. The batch entry point \<open>processSinglePDF\<close> checks the header
  before anything else: for every buffer whose first five bytes are not \<open>%PDF-\<close> it fails
  with the error that the file is not a valid PDF, whatever the library would do with the
  buffer, so without a scan for signatures and without a decode.
\<close>

theorem header_checked_first:
  "take 5 buf \<noteq> ''%PDF-'' \<Longrightarrow> processSinglePDF F buf = Some (Inl ''File is not a valid PDF'')"
  by (simp add: processSinglePDF_def isPDF_def)

theorem header_checked_first_witness:
  "take 5 headlessDocument \<noteq> ''%PDF-'' \<and>
   processSinglePDF strictForge headlessDocument = Some (Inl ''File is not a valid PDF'')"
proof -
  have "take 5 headlessDocument \<noteq> ''%PDF-''"
    by (simp add: headlessDocument_def)
  with header_checked_first[of headlessDocument strictForge] show ?thesis by simp
qed

text \<open>
  The claim as stated fails for \<open>extractCertificateFromPDF\<close>, which has no check of the
  header: a buffer that does not start with \<open>%PDF-\<close> is scanned for signatures and its
  signature is decoded, and without a signature the error is that no signature was found.
\<close>

theorem header_not_checked_counterexample:
  "\<not> isPDF headlessDocument \<and>
   map snd (sigMatches headlessDocument) = [plainSignature] \<and>
   extractCertificateFromPDF strictForge headlessDocument = Some (Inr [0x30, 6, 0x30, 0, 5, 0, 5, 0]) \<and>
   \<not> isPDF ''hello'' \<and>
   extractCertificateFromPDF strictForge ''hello'' =
     Some (Inl (''Failed to extract certificate from PDF: '' @
                ''No signature found in PDF. The PDF may not be digitally signed.''))"
proof -
  have "\<not> isPDF headlessDocument"
    by (simp add: headlessDocument_def isPDF_def)
  moreover have "firstAadhaarSignature strictForge [plainSignature] = Some None"
    by (simp add: plainSignature_certificate plainCertificate_parsed hasAadhaarData_def
        plainDetails_def)
  then have "extractCertificateFromPDF strictForge headlessDocument =
      Some (Inr [0x30, 6, 0x30, 0, 5, 0, 5, 0])"
    by (simp add: extractCertificateFromPDF_def headlessDocument_signatures
        plainSignature_certificate rethrowOpt_def rethrow_def)
  moreover have "extractCertificateFromPDF strictForge ''hello'' =
     Some (Inl (''Failed to extract certificate from PDF: '' @
                ''No signature found in PDF. The PDF may not be digitally signed.''))"
    by (simp add: pdf_eval isStrWhiteSpace_def rethrowOpt_def rethrow_def)
  moreover have "\<not> isPDF ''hello''"
    by (simp add: isPDF_def)
  ultimately show ?thesis using headlessDocument_signatures by simp
qed

end
